theory Spec2Isabelle
  imports Complex_Main
begin

section \<open>The BUFR query engine: data collection and result assembly\<close>

text \<open>
  A shallow embedding of \<^verbatim>\<open>ResultSet.cpp\<close> and \<^verbatim>\<open>QueryRunner.cpp\<close>.
  A C++ exception is a value of the type \<open>error\<close>, and so is a write outside a
  container or a \<^verbatim>\<open>back()\<close> of an empty one; a function that can fail returns
  \<open>error + 'a\<close>. The reads outside a vector that ordinary runs of \<open>collectData\<close>
  make return a value the model takes as a parameter. \<^verbatim>\<open>int\<close> is modelled by
  \<open>int\<close> and \<^verbatim>\<open>size_t\<close> by \<open>nat\<close>; where the source converts between the two
  or wraps around (\<^verbatim>\<open>path.size() - 1\<close> on an empty path, the indices of the jagged
  copy) the conversion is written out. The values of the stream are \<^verbatim>\<open>double\<close>s
  that the code only copies and compares with zero; they are modelled by \<open>real\<close>.
\<close>

subsection \<open>Errors\<close>

text \<open>
  \<open>BadValue\<close> and \<open>BadParameter\<close> are the two \<^verbatim>\<open>eckit\<close> exceptions the code throws,
  with their messages; \<open>out_of_range\<close> is what \<^verbatim>\<open>std::vector::at\<close> throws,
  \<open>length_error\<close> what \<^verbatim>\<open>std::vector::resize\<close> throws for a size beyond
  \<^verbatim>\<open>max_size()\<close>. \<open>Undefined\<close> stands for behaviour C++ leaves undefined: an
  \<^verbatim>\<open>operator[]\<close> or \<^verbatim>\<open>back()\<close> outside the container.
\<close>

datatype error =
  BadValue string
| BadParameter string
| out_of_range
| length_error
| Undefined

definition vec_at :: "'a list \<Rightarrow> nat \<Rightarrow> error + 'a" where
  "vec_at xs i = (if i < length xs then Inr (xs ! i) else Inl out_of_range)"

subsection \<open>The data model\<close>

text \<open>
  The headers are not among the sources; each type carries the members the two source
  files read or write.
\<close>

datatype Typ =
  Subset | Sequence | Repeat | StackedRepeat | DelayedRep | FixedRep
| DelayedRepStacked | DelayedBinary | Number | Character

record TypeInfo =
  scale :: int
  reference :: int
  bits :: int
  unit :: string

record QueryComponent =
  name :: string
  index :: nat

record SubsetComponent = QueryComponent +
  isAnySubset :: bool

text \<open>The fields of \<^verbatim>\<open>Query\<close>; \<open>qpath\<close> is its \<^verbatim>\<open>path\<close>.\<close>

record Query =
  subset :: SubsetComponent
  qpath :: "QueryComponent list"
  queryStr :: string

text \<open>\<^verbatim>\<open>TargetComponent::Type\<close>; the constructors carry a prefix, \<open>Subset\<close> being a \<open>Typ\<close>.\<close>

datatype ComponentType = TSubset | TRepeat | TValue

record TargetComponent =
  queryComponent :: QueryComponent
  branch :: int
  ctype :: ComponentType

text \<open>
  Modelled from the spec: \<^verbatim>\<open>ResultSet.cpp\<close> reads \<^verbatim>\<open>p->nodeId\<close> of a path
  component, \<^verbatim>\<open>QueryRunner.cpp\<close> writes \<^verbatim>\<open>branch\<close>, and the declaration of
  \<^verbatim>\<open>TargetComponent\<close> is missing; the spec reads the counts at
  \<open>target.path[k].branch\<close>, so \<open>nodeId\<close> is the branch.
\<close>

definition nodeId :: "TargetComponent \<Rightarrow> int" where
  "nodeId p = branch p"

text \<open>The fields of \<^verbatim>\<open>Target\<close>; \<open>tname\<close>, \<open>tqueryStr\<close> and \<open>tpath\<close> are its
  \<^verbatim>\<open>name\<close>, \<^verbatim>\<open>queryStr\<close> and \<^verbatim>\<open>path\<close>.\<close>

record Target =
  tname :: string
  tqueryStr :: string
  nodeIdx :: int
  tpath :: "TargetComponent list"
  seqPath :: "int list"
  typeInfo :: TypeInfo
  dimPaths :: "string list"
  exportDimIdxs :: "int list"

text \<open>
  What \<^verbatim>\<open>ResultSet.cpp\<close> reads of a \<^verbatim>\<open>DataFrame\<close>: its targets
  (\<^verbatim>\<open>frame.getTargets()\<close>) and, through \<^verbatim>\<open>frame[i]\<close>, an entry with \<^verbatim>\<open>counts\<close>
  and \<^verbatim>\<open>data\<close>. The \<^verbatim>\<open>operator[]\<close> is missing from the sources and is taken as it
  is used: a total lookup \<open>entryAt\<close>.
\<close>

record FrameEntry =
  counts :: "int list"
  data :: "real list"

record DataFrame =
  getTargets :: "Target list"
  entryAt :: "int \<Rightarrow> FrameEntry"

text \<open>Modelled from the spec: \<^verbatim>\<open>Constants.h\<close> is missing; \<open>MissingValue = 10e10\<close>.\<close>

definition MissingValue :: real where
  "MissingValue = 10 * 10 ^ 10"

subsection \<open>\<^verbatim>\<open>VectorMath.h\<close>\<close>

text \<open>
  Modelled from the spec: \<^verbatim>\<open>VectorMath.h\<close> is missing. \<open>max_vec\<close> is its \<^verbatim>\<open>max\<close>
  of a vector (called on non-empty vectors only), \<open>allEqual\<close> holds when all elements
  are equal, \<open>product\<close> multiplies a range, \<open>slice\<close> is \<open>dims[idxs]\<close>, and
  \<open>insertCounts\<close> is the element-wise
  \<^verbatim>\<open>product(k..) - counts * product(k+1..)\<close>.
\<close>

fun max_vec :: "int list \<Rightarrow> int" where
  "max_vec (x # xs) = fold max xs x"

fun allEqual :: "int list \<Rightarrow> bool" where
  "allEqual [] = True"
| "allEqual (x # xs) = list_all (\<lambda>y. y = x) xs"

definition product :: "int list \<Rightarrow> int" where
  "product xs = prod_list xs"

fun slice :: "int list \<Rightarrow> int list \<Rightarrow> error + int list" where
  "slice xs [] = Inr []"
| "slice xs (i # idxs) =
     (if 0 \<le> i \<and> nat i < length xs
      then (case slice xs idxs of Inl e \<Rightarrow> Inl e | Inr ys \<Rightarrow> Inr (xs ! nat i # ys))
      else Inl Undefined)"

definition insertCounts :: "int \<Rightarrow> int list \<Rightarrow> int \<Rightarrow> int list" where
  "insertCounts whole cnts inner = map (\<lambda>c. whole - c * inner) cnts"

subsection \<open>\<^verbatim>\<open>ResultSet::splitPath\<close>\<close>

text \<open>
  \<^verbatim>\<open>std::string::find(ch, pos)\<close>: the first position \<open>\<ge> pos\<close> holding \<open>ch\<close>,
  \<open>None\<close> for \<^verbatim>\<open>npos\<close>.
\<close>

definition str_find :: "string \<Rightarrow> char \<Rightarrow> nat \<Rightarrow> nat option" where
  "str_find s ch pos =
     (let n = length (takeWhile (\<lambda>x. x \<noteq> ch) (drop pos s))
      in if pos + n < length s then Some (pos + n) else None)"

text \<open>
  \<^verbatim>\<open>s.substr(pos, len)\<close> and \<^verbatim>\<open>s.substr(pos)\<close>, for \<open>pos \<le> length s\<close> (the
  only way \<^verbatim>\<open>splitPath\<close> calls them).
\<close>

definition substr :: "string \<Rightarrow> nat \<Rightarrow> nat \<Rightarrow> string" where
  "substr s pos len = take len (drop pos s)"

definition substr_from :: "string \<Rightarrow> nat \<Rightarrow> string" where
  "substr_from s pos = drop pos s"

text \<open>
  The \<^verbatim>\<open>while ((end = path.find('/', start)) != npos)\<close> loop with the statement that
  follows it; the state is \<open>start\<close> and \<open>components\<close>.
\<close>

function splitPath_loop :: "string \<Rightarrow> nat \<Rightarrow> string list \<Rightarrow> string list" where
  "splitPath_loop path start components =
     (case str_find path (CHR ''/'') start of
        Some end' \<Rightarrow>
          splitPath_loop path (end' + 1)
            (if end' \<noteq> start then components @ [substr path start (end' - start)]
             else components)
      | None \<Rightarrow>
          (if start < length path then components @ [substr_from path start]
           else components))"
  by pat_completeness auto
termination
  by (relation "measure (\<lambda>(path, start, components). length path - start)")
     (auto simp: str_find_def Let_def split: if_splits)

definition splitPath :: "string \<Rightarrow> string list" where
  "splitPath path = splitPath_loop path 0 []"

text \<open>The spec's \<open>join("/", comps)\<close>: the components with one \<open>/\<close> between neighbours.\<close>

fun joinPath :: "string list \<Rightarrow> string" where
  "joinPath [] = []"
| "joinPath [c] = c"
| "joinPath (c # d # cs) = c @ CHR ''/'' # joinPath (d # cs)"

subsection \<open>\<^verbatim>\<open>ResultSet::getRawValues\<close>: the group-by check\<close>

text \<open>
  Lines 86--112. The lookup of the group-by target is commented out in the source, so
  \<open>groupByTarget\<close> is the null pointer whatever \<open>groupByField\<close> is; the check that
  follows is kept as the source has it.
\<close>

definition groupByTarget :: "Target list \<Rightarrow> string \<Rightarrow> Target option" where
  "groupByTarget targets groupByField = None"

text \<open>\<^verbatim>\<open>v.back()\<close> of the dim paths: undefined on an empty vector.\<close>

definition back_str :: "string list \<Rightarrow> error + string" where
  "back_str xs = (if xs = [] then Inl Undefined else Inr (last xs))"

definition groupByMessage :: "string \<Rightarrow> string \<Rightarrow> string \<Rightarrow> string \<Rightarrow> string" where
  "groupByMessage groupByField fieldName groupByPath targetPath =
     ''The groupByField '' @ groupByField @ '' and the targetField '' @ fieldName @
     '' do not share a common path. The groupByField path is '' @ groupByPath @
     '' and the targetField path is '' @ targetPath"

text \<open>The \<^verbatim>\<open>for (i = 1; i < min(...); i++)\<close> loop, counting \<open>n\<close> more indices from \<open>i\<close>.\<close>

fun commonPathLoop :: "string list \<Rightarrow> string list \<Rightarrow> nat \<Rightarrow> nat \<Rightarrow> bool" where
  "commonPathLoop groupByPathComps targetPathComps i 0 = True"
| "commonPathLoop groupByPathComps targetPathComps i (Suc n) =
     (if targetPathComps ! i \<noteq> groupByPathComps ! i then False
      else commonPathLoop groupByPathComps targetPathComps (i + 1) n)"

definition groupByCheck :: "string \<Rightarrow> string \<Rightarrow> Target option \<Rightarrow> Target \<Rightarrow> error + unit" where
  "groupByCheck fieldName groupByField gbt target =
     (case gbt of
        None \<Rightarrow> Inr ()
      | Some g \<Rightarrow>
          (case back_str (dimPaths g) of
             Inl e \<Rightarrow> Inl e
           | Inr gPath \<Rightarrow>
               (case back_str (dimPaths target) of
                  Inl e \<Rightarrow> Inl e
                | Inr tPath \<Rightarrow>
                    (let groupByPathComps = splitPath gPath;
                         targetPathComps = splitPath tPath
                     in if commonPathLoop groupByPathComps targetPathComps 1
                             (min (length groupByPathComps) (length targetPathComps) - 1)
                        then Inr ()
                        else Inl (BadValue (groupByMessage groupByField fieldName gPath tPath))))))"

subsection \<open>\<^verbatim>\<open>ResultSet::getRawValues\<close>: dimensions, jaggedness and type information\<close>

text \<open>
  The variables the loop over the frames (lines 114--162) updates: \<open>dimsList\<close>,
  \<open>jagged\<close>, the out-parameters \<open>info\<close> and \<open>dimPaths\<close> (here \<open>dimPathsOut\<close>),
  \<open>exportDims\<close>, and \<open>target\<close>, which the loop re-assigns for every frame.
\<close>

record DimsState =
  dimsList :: "int list"
  jagged :: bool
  info :: TypeInfo
  dimPathsOut :: "string list"
  exportDims :: "int list"
  target :: Target

text \<open>
  The inner loop over \<^verbatim>\<open>target->path.begin() .. target->path.end() - 1\<close>, lines
  123--141, on the components still to visit. It stops at the first component whose
  counts are empty; \<^verbatim>\<open>dimsList[pathIdx]\<close> outside \<open>dimsList\<close> is undefined.
\<close>

fun dimsLoop ::
  "DataFrame \<Rightarrow> TargetComponent list \<Rightarrow> nat \<Rightarrow> int list \<times> bool \<Rightarrow> error + int list \<times> bool"
where
  "dimsLoop frame [] pathIdx st = Inr st"
| "dimsLoop frame (p # ps) pathIdx (dl, jag) =
     (let cnts = counts (entryAt frame (nodeId p)) in
      if cnts = [] then Inr (dl, jag)
      else if length dl \<le> pathIdx then Inl Undefined
      else
        (let newDimVal = max (dl ! pathIdx) (max_vec cnts);
             jag1 = (if \<not> jag then \<not> allEqual cnts else jag);
             jag2 = (if \<not> jag \<and> \<not> jag1 \<and> dl ! pathIdx \<noteq> 0
                     then dl ! pathIdx \<noteq> newDimVal else jag1)
         in dimsLoop frame ps (pathIdx + 1) (dl[pathIdx := newDimVal], jag2)))"

text \<open>
  Lines 143--152: the type information of one more frame's target. \<^verbatim>\<open>std::abs\<close> is
  the absolute value of an unbounded \<open>int\<close> here; at the least \<^verbatim>\<open>int\<close> the
  source's \<^verbatim>\<open>std::abs\<close> overflows, which is not modelled.
\<close>

definition mergeTypeInfo :: "TypeInfo \<Rightarrow> TypeInfo \<Rightarrow> TypeInfo" where
  "mergeTypeInfo acc ti =
     \<lparr> scale = (if \<bar>scale ti\<bar> > scale acc then scale ti else scale acc),
       reference = min (reference acc) (reference ti),
       bits = max (bits acc) (bits ti),
       unit = (if unit acc = [] then unit ti else unit acc) \<rparr>"

text \<open>
  One pass of the loop over the frames. An empty path makes
  \<^verbatim>\<open>target->path.end() - 1\<close> precede \<^verbatim>\<open>begin()\<close>: undefined.
\<close>

definition frameStep :: "nat \<Rightarrow> DataFrame \<Rightarrow> DimsState \<Rightarrow> error + DimsState" where
  "frameStep targetIdx frame st =
     (case vec_at (getTargets frame) targetIdx of
        Inl e \<Rightarrow> Inl e
      | Inr targ \<Rightarrow>
          if tpath targ = [] then Inl Undefined
          else
            (case dimsLoop frame (butlast (tpath targ)) 0 (dimsList st, jagged st) of
               Inl e \<Rightarrow> Inl e
             | Inr (dl, jag) \<Rightarrow>
                 (let fill = (dimPaths targ \<noteq> [] \<and>
                              length (dimPathsOut st) < length (dimPaths targ))
                  in Inr \<lparr> dimsList = dl,
                           jagged = jag,
                           info = mergeTypeInfo (info st) (typeInfo targ),
                           dimPathsOut = (if fill then dimPaths targ else dimPathsOut st),
                           exportDims = (if fill then exportDimIdxs targ else exportDims st),
                           target = targ \<rparr>)))"

fun framesLoop :: "nat \<Rightarrow> DataFrame list \<Rightarrow> DimsState \<Rightarrow> error + DimsState" where
  "framesLoop targetIdx [] st = Inr st"
| "framesLoop targetIdx (frame # rest) st =
     (case frameStep targetIdx frame st of
        Inl e \<Rightarrow> Inl e
      | Inr st' \<Rightarrow> framesLoop targetIdx rest st')"

subsection \<open>\<^verbatim>\<open>ResultSet::getRawValues\<close>: allocation and copy\<close>

text \<open>Lines 171--177: the copy \<open>allDims\<close> of the dimensions with every zero made one.\<close>

definition liftZeroDims :: "int list \<Rightarrow> int list" where
  "liftZeroDims allDims = map (\<lambda>d. if d = 0 then 1 else d) allDims"

text \<open>
  Lines 180--184: the product of \<open>dims[1..]\<close>, over unbounded \<open>int\<close>; the overflow
  of the source's \<^verbatim>\<open>int rowLength\<close> for very large dimensions is not modelled.
\<close>

definition rowLengthOf :: "int list \<Rightarrow> int" where
  "rowLengthOf dims = product (drop 1 dims)"

text \<open>\<^verbatim>\<open>v.resize(n, x)\<close>.\<close>

definition resize :: "'a list \<Rightarrow> nat \<Rightarrow> 'a \<Rightarrow> 'a list" where
  "resize v n x = (if n \<le> length v then take n v else v @ replicate (n - length v) x)"

text \<open>
  Conversions between \<^verbatim>\<open>int\<close> (32 bits) and \<^verbatim>\<open>size_t\<close> (64 bits), which the
  jagged copy goes through: an \<^verbatim>\<open>int\<close> read as \<^verbatim>\<open>size_t\<close> wraps modulo \<open>2^64\<close>,
  a \<^verbatim>\<open>size_t\<close> cast to \<^verbatim>\<open>int\<close> keeps its low 32 bits as a signed number.
\<close>

definition to_size_t :: "int \<Rightarrow> nat" where
  "to_size_t x = nat (x mod 2 ^ 64)"

definition to_int :: "nat \<Rightarrow> int" where
  "to_int n = (let r = int n mod 2 ^ 32 in if 2 ^ 31 \<le> r then r - 2 ^ 32 else r)"

text \<open>Lines 210--220: the insert counts of every dimension for one frame.\<close>

definition computeInserts :: "int list \<Rightarrow> DataFrame \<Rightarrow> Target \<Rightarrow> int list list" where
  "computeInserts dims frame targ =
     map (\<lambda>repIdx.
            if repIdx < min (length dims) (length (tpath targ))
            then insertCounts (product (drop repIdx dims))
                   (counts (entryAt frame (nodeId (tpath targ ! repIdx))))
                   (product (drop (repIdx + 1) dims))
            else [0])
       [0..<length dims]"

text \<open>Lines 225--242: the loop over the inserts of one dimension, \<open>whole\<close> being
  \<^verbatim>\<open>product(dims.begin() + dim_idx, dims.end())\<close>.\<close>

fun insertLoop :: "int \<Rightarrow> int list \<Rightarrow> nat \<Rightarrow> nat list \<Rightarrow> nat list" where
  "insertLoop whole [] insert_idx idxs = idxs"
| "insertLoop whole (ins # rest) insert_idx idxs =
     (let num_inserts = to_size_t ins in
      insertLoop whole rest (insert_idx + 1)
        (if 0 < num_inserts
         then (let data_idx =
                     to_int (to_size_t (whole * int insert_idx + whole - int num_inserts - 1))
               in map (\<lambda>i. if data_idx < to_int i then (i + num_inserts) mod 2 ^ 64 else i) idxs)
         else idxs))"

text \<open>Lines 223--243: \<^verbatim>\<open>for (dim_idx = dims.size() - 1; dim_idx >= 0; --dim_idx)\<close>,
  with \<open>n\<close> the number of dimensions still to visit.\<close>

fun inflate :: "int list \<Rightarrow> int list list \<Rightarrow> nat \<Rightarrow> nat list \<Rightarrow> nat list" where
  "inflate dims inserts 0 idxs = idxs"
| "inflate dims inserts (Suc dim_idx) idxs =
     inflate dims inserts dim_idx
       (insertLoop (product (drop dim_idx dims)) (inserts ! dim_idx) 0 idxs)"

text \<open>Lines 245--248: the writes \<^verbatim>\<open>data[idxs[i] + frameIdx * rowLength] = fragment[i]\<close>;
  a write outside \<open>data\<close> is undefined.\<close>

fun writeAll :: "nat list \<Rightarrow> real list \<Rightarrow> nat \<Rightarrow> real list \<Rightarrow> error + real list" where
  "writeAll (ix # ixs) (v # vs) off dat =
     (if (ix + off) mod 2 ^ 64 < length dat
      then writeAll ixs vs off (dat[(ix + off) mod 2 ^ 64 := v])
      else Inl Undefined)"
| "writeAll ixs vs off dat = Inr dat"

definition copyJagged ::
  "int list \<Rightarrow> DataFrame \<Rightarrow> Target \<Rightarrow> real list \<Rightarrow> nat \<Rightarrow> real list \<Rightarrow> error + real list"
where
  "copyJagged dims frame targ fragment off dat =
     writeAll
       (inflate dims (computeInserts dims frame targ) (length dims) [0..<length fragment])
       fragment off dat"

text \<open>Line 252: \<^verbatim>\<open>std::copy\<close> of the fragment to \<^verbatim>\<open>data.begin() + off\<close>; running past
  the end of \<open>data\<close> is undefined.\<close>

definition copyPlain :: "real list \<Rightarrow> nat \<Rightarrow> real list \<Rightarrow> error + real list" where
  "copyPlain fragment off dat =
     (if off + length fragment \<le> length dat
      then Inr (take off dat @ fragment @ drop (off + length fragment) dat)
      else Inl Undefined)"

text \<open>
  Lines 192--254, the loop over the frames. The fragment is read through the value
  \<open>target\<close> has on entry to the pass, and only then is \<open>target\<close> re-assigned.
\<close>

fun copyLoop ::
  "bool \<Rightarrow> int list \<Rightarrow> nat \<Rightarrow> nat \<Rightarrow> DataFrame list \<Rightarrow> nat \<Rightarrow> real list \<times> Target \<Rightarrow>
   error + real list \<times> Target"
where
  "copyLoop jag dims rowLength targetIdx [] frameIdx st = Inr st"
| "copyLoop jag dims rowLength targetIdx (frame # rest) frameIdx (dat, targ) =
     (let fragment = data (entryAt frame (nodeIdx targ)) in
      case vec_at (getTargets frame) targetIdx of
        Inl e \<Rightarrow> Inl e
      | Inr targ' \<Rightarrow>
          (case (if jag then copyJagged dims frame targ' fragment (frameIdx * rowLength) dat
                 else copyPlain fragment (frameIdx * rowLength) dat) of
             Inl e \<Rightarrow> Inl e
           | Inr dat' \<Rightarrow>
               copyLoop jag dims rowLength targetIdx rest (frameIdx + 1) (dat', targ')))"

subsection \<open>\<^verbatim>\<open>ResultSet::getRawValues\<close>\<close>

text \<open>The out-parameters \<open>data\<close>, \<open>dims\<close>, \<open>dimPaths\<close> and \<open>info\<close> on return.\<close>

record RawValues =
  rvData :: "real list"
  rvDims :: "int list"
  rvDimPaths :: "string list"
  rvInfo :: TypeInfo

text \<open>Lines 76--82: the index of the first target named \<open>fieldName\<close>, the number of
  targets when there is none.\<close>

definition findTargetIdx :: "Target list \<Rightarrow> string \<Rightarrow> nat" where
  "findTargetIdx targets fieldName = length (takeWhile (\<lambda>t. tname t \<noteq> fieldName) targets)"

text \<open>
  \<open>data0\<close>, \<open>dimPaths0\<close> and \<open>info0\<close> are the values the caller's \<open>data\<close>,
  \<open>dimPaths\<close> and \<open>info\<close> hold on entry. An empty path of the first frame's target
  makes \<^verbatim>\<open>target->path.size() - 1\<close> wrap to the largest \<^verbatim>\<open>size_t\<close>, and
  \<^verbatim>\<open>resize\<close> throws. The dimensions are never negative, so \<open>rowLength\<close> is not
  either.
\<close>

definition getRawValues ::
  "DataFrame list \<Rightarrow> string \<Rightarrow> string \<Rightarrow> real list \<Rightarrow> string list \<Rightarrow> TypeInfo \<Rightarrow>
   error + RawValues"
where
  "getRawValues frames fieldName groupByField data0 dimPaths0 info0 =
     (if frames = [] then Inl (BadValue ''No data was found.'')
      else
        (let targets = getTargets (hd frames);
             targetIdx = findTargetIdx targets fieldName
         in case vec_at targets targetIdx of
              Inl e \<Rightarrow> Inl e
            | Inr targ0 \<Rightarrow>
         (case groupByCheck fieldName groupByField (groupByTarget targets groupByField) targ0 of
              Inl e \<Rightarrow> Inl e
            | Inr _ \<Rightarrow>
         if tpath targ0 = [] then Inl length_error
         else
         (case framesLoop targetIdx frames
                 \<lparr> dimsList = replicate (length (tpath targ0) - 1) 0,
                   jagged = False,
                   info = info0,
                   dimPathsOut = dimPaths0,
                   exportDims = [],
                   target = targ0 \<rparr> of
              Inl e \<Rightarrow> Inl e
            | Inr st \<Rightarrow>
         (let allDims = liftZeroDims (dimsList st);
              dims = dimsList st;
              rowLength = nat (rowLengthOf dims);
              totalRows = length frames;
              dat0 = resize data0 (totalRows * rowLength) MissingValue
          in case copyLoop (jagged st) dims rowLength targetIdx frames 0 (dat0, target st) of
               Inl e \<Rightarrow> Inl e
             | Inr (dat, targ) \<Rightarrow>
                 if dims = [] then Inl Undefined
                 else
                   (case slice (dims[0 := int totalRows]) (exportDimIdxs targ) of
                      Inl e \<Rightarrow> Inl e
                    | Inr dims' \<Rightarrow>
                        Inr \<lparr> rvData = dat, rvDims = dims',
                              rvDimPaths = dimPathsOut st, rvInfo = info st \<rparr>))))))"

subsection \<open>\<^verbatim>\<open>ResultSet::makeDataObject\<close> and \<^verbatim>\<open>ResultSet::get\<close>\<close>

text \<open>
  The element type of the \<^verbatim>\<open>DataObject<T>\<close> that is constructed, and the object with
  what the setters store in it. \<^verbatim>\<open>setData\<close> is not among the sources: the object
  keeps the raw values it is given.
\<close>

datatype ElemType = Int32 | Int64 | UInt32 | UInt64 | Float | Double | String

record DataObject =
  elemType :: ElemType
  objData :: "real list"
  objDims :: "int list"
  fieldName :: string
  groupByFieldName :: string
  objDimPaths :: "string list"

text \<open>
  The member functions of \<^verbatim>\<open>TypeInfo\<close> the dispatch calls are not among the sources;
  they are parameters.
\<close>

record TypeInfoMethods =
  isString :: "TypeInfo \<Rightarrow> bool"
  isInteger :: "TypeInfo \<Rightarrow> bool"
  isSigned :: "TypeInfo \<Rightarrow> bool"
  is64Bit :: "TypeInfo \<Rightarrow> bool"

definition objectByTypeInfo :: "TypeInfoMethods \<Rightarrow> TypeInfo \<Rightarrow> ElemType" where
  "objectByTypeInfo m inf0 =
     (if isString m inf0 then String
      else if isInteger m inf0 then
        (if isSigned m inf0 then (if is64Bit m inf0 then Int64 else Int32)
         else (if is64Bit m inf0 then UInt64 else UInt32))
      else (if is64Bit m inf0 then Double else Float))"

definition unknownType :: "string \<Rightarrow> error" where
  "unknownType overrideType =
     BadParameter (''Unknown or unsupported type '' @ overrideType @ ''.'')"

definition objectByType :: "string \<Rightarrow> error + ElemType" where
  "objectByType overrideType =
     (if overrideType = ''int'' \<or> overrideType = ''int32'' then Inr Int32
      else if overrideType = ''float'' then Inr Float
      else if overrideType = ''double'' then Inr Double
      else if overrideType = ''string'' then Inr String
      else if overrideType = ''int64'' then Inr Int64
      else Inl (unknownType overrideType))"

definition incompatibleOverride :: "string \<Rightarrow> error" where
  "incompatibleOverride fname =
     BadParameter
       (''Conversions between numbers and strings are not currently supported. '' @
        ''See the export definition for '' @ [CHR 0x22] @ fname @ [CHR 0x22] @ ''.'')"

definition makeDataObject ::
  "TypeInfoMethods \<Rightarrow> string \<Rightarrow> string \<Rightarrow> TypeInfo \<Rightarrow> string \<Rightarrow> real list \<Rightarrow> int list \<Rightarrow>
   string list \<Rightarrow> error + DataObject"
where
  "makeDataObject m fname groupByName inf0 overrideType dat dims dpaths =
     (case (if overrideType = [] then Inr (objectByTypeInfo m inf0)
            else
              (case objectByType overrideType of
                 Inl e \<Rightarrow> Inl e
               | Inr object \<Rightarrow>
                   if (overrideType = ''string'' \<and> \<not> isString m inf0) \<or>
                      (overrideType \<noteq> ''string'' \<and> isString m inf0)
                   then Inl (incompatibleOverride fname)
                   else Inr object)) of
        Inl e \<Rightarrow> Inl e
      | Inr object \<Rightarrow>
          Inr \<lparr> elemType = object, objData = dat, objDims = dims, fieldName = fname,
                groupByFieldName = groupByName, objDimPaths = dpaths \<rparr>)"

text \<open>
  \<^verbatim>\<open>ResultSet::get\<close>. \<open>defaultInfo\<close> is the default-constructed \<^verbatim>\<open>TypeInfo\<close>, whose
  constructor is not among the sources; \<open>data\<close> and \<open>dimPaths\<close> start empty.
\<close>

definition get ::
  "TypeInfoMethods \<Rightarrow> TypeInfo \<Rightarrow> DataFrame list \<Rightarrow> string \<Rightarrow> string \<Rightarrow> string \<Rightarrow>
   error + DataObject"
where
  "get m defaultInfo frames fname groupByName overrideType =
     (case getRawValues frames fname groupByName [] [] defaultInfo of
        Inl e \<Rightarrow> Inl e
      | Inr rv \<Rightarrow>
          makeDataObject m fname groupByName (rvInfo rv) overrideType
            (rvData rv) (rvDims rv) (rvDimPaths rv))"

subsection \<open>The data provider\<close>

text \<open>
  \<^verbatim>\<open>DataProvider\<close> is external to the two source files: the member functions they
  call are the fields of a record. Node indices are \<^verbatim>\<open>int\<close>; the data cursor runs
  from 1 to \<open>getNVal\<close>.
\<close>

record DataProvider =
  getSubset :: string
  getInode :: int
  getIsc :: "int \<Rightarrow> int"
  getNVal :: nat
  getInv :: "nat \<Rightarrow> int"
  getVal :: "nat \<Rightarrow> real"
  getTyp :: "int \<Rightarrow> Typ"
  getTag :: "int \<Rightarrow> string"
  getJmpb :: "int \<Rightarrow> int"
  getLink :: "int \<Rightarrow> int"
  getTypeInfo :: "int \<Rightarrow> TypeInfo"

text \<open>\<^verbatim>\<open>QueryRunner::isQueryNode\<close>.\<close>

definition isQueryNode :: "DataProvider \<Rightarrow> int \<Rightarrow> bool" where
  "isQueryNode dp n =
     (getTyp dp n = DelayedRep \<or> getTyp dp n = FixedRep \<or>
      getTyp dp n = DelayedRepStacked \<or> getTyp dp n = DelayedBinary)"

subsection \<open>\<^verbatim>\<open>QueryRunner::collectData\<close>: the state\<close>

text \<open>
  \<^verbatim>\<open>NodeData\<close>, whose \<^verbatim>\<open>values\<close> and \<^verbatim>\<open>counts\<close> are \<open>nvalues\<close> and
  \<open>ncounts\<close> here, and the masks, two
  \<^verbatim>\<open>std::vector<bool>\<close>.
\<close>

record NodeData =
  nvalues :: "real list"
  ncounts :: "int list"

record ProcessingMasks =
  valueNodeMask :: "bool list"
  pathNodeMask :: "bool list"

text \<open>
  Some reads of \<open>collectData\<close> fall outside their vector in ordinary runs: the masks
  have \<open>getIsc (getInode)\<close> elements and are read at the node index
  \<open>getIsc (getInode)\<close>, and \<^verbatim>\<open>currentPathReturns[lastNonZeroReturnIdx]\<close> is read at
  index \<open>-1\<close> once the path has been popped empty. C++ leaves the value of such a read
  open; the model takes it from a parameter: \<open>strayBit\<close> for a mask read at a node
  index, \<open>strayInt\<close> for the read of the returns at a data cursor.
\<close>

record Stray =
  strayBit :: "int \<Rightarrow> bool"
  strayInt :: "nat \<Rightarrow> int"

definition mask_at :: "Stray \<Rightarrow> bool list \<Rightarrow> int \<Rightarrow> bool" where
  "mask_at stray msk n =
     (if 0 \<le> n \<and> nat n < length msk then msk ! nat n else strayBit stray n)"

text \<open>
  The local variables of \<open>collectData\<close>. Modelled from the spec: \<open>dataTable\<close> is an
  \<^verbatim>\<open>OffsetArray<NodeData>\<close>, whose declaration is missing: a dense array indexed
  from \<open>getInode\<close> to \<open>getIsc (getInode)\<close>. An access outside these bounds is
  undefined.
\<close>

record CollectState =
  currentPath :: "int list"
  currentPathReturns :: "int list"
  returnNodeIdx :: int
  lastNonZeroReturnIdx :: int
  dataTable :: "int \<Rightarrow> NodeData"

definition inTable :: "DataProvider \<Rightarrow> int \<Rightarrow> bool" where
  "inTable dp n = (getInode dp \<le> n \<and> n \<le> getIsc dp (getInode dp))"

definition initialState :: CollectState where
  "initialState =
     \<lparr> currentPath = [], currentPathReturns = [], returnNodeIdx = -1,
       lastNonZeroReturnIdx = -1,
       dataTable = (\<lambda>n. \<lparr> nvalues = [], ncounts = [] \<rparr>) \<rparr>"

text \<open>\<^verbatim>\<open>dataTable[n].values.push_back(v)\<close> and \<^verbatim>\<open>dataTable[n].counts.push_back(c)\<close>.\<close>

definition pushValue :: "DataProvider \<Rightarrow> int \<Rightarrow> real \<Rightarrow> CollectState \<Rightarrow> error + CollectState" where
  "pushValue dp n v s =
     (if inTable dp n
      then Inr (s\<lparr> dataTable := (dataTable s)
                  (n := (dataTable s n)\<lparr> nvalues := nvalues (dataTable s n) @ [v] \<rparr>) \<rparr>)
      else Inl Undefined)"

definition pushCount :: "DataProvider \<Rightarrow> int \<Rightarrow> int \<Rightarrow> CollectState \<Rightarrow> error + CollectState" where
  "pushCount dp n c s =
     (if inTable dp n
      then Inr (s\<lparr> dataTable := (dataTable s)
                  (n := (dataTable s n)\<lparr> ncounts := ncounts (dataTable s n) @ [c] \<rparr>) \<rparr>)
      else Inl Undefined)"

text \<open>\<^verbatim>\<open>dataTable[n].counts.back() += d\<close>; \<^verbatim>\<open>back()\<close> of an empty vector is undefined.\<close>

definition addToLastCount :: "DataProvider \<Rightarrow> int \<Rightarrow> int \<Rightarrow> CollectState \<Rightarrow> error + CollectState" where
  "addToLastCount dp n d s =
     (let cs = ncounts (dataTable s n) in
      if inTable dp n \<and> cs \<noteq> []
      then Inr (s\<lparr> dataTable := (dataTable s)
                  (n := (dataTable s n)\<lparr> ncounts := butlast cs @ [last cs + d] \<rparr>) \<rparr>)
      else Inl Undefined)"

subsection \<open>\<^verbatim>\<open>QueryRunner::collectData\<close>: one data cursor\<close>

text \<open>Lines 444--448: the value of a value node.\<close>

definition captureValue ::
  "Stray \<Rightarrow> DataProvider \<Rightarrow> ProcessingMasks \<Rightarrow> nat \<Rightarrow> CollectState \<Rightarrow> error + CollectState"
where
  "captureValue stray dp masks dataCursor s =
     (let n = getInv dp dataCursor in
      if mask_at stray (valueNodeMask masks) n then pushValue dp n (getVal dp dataCursor) s
      else Inr s)"

text \<open>Lines 464--477: the count of the occurrence of a sequence that is running.\<close>

definition countSequence ::
  "Stray \<Rightarrow> DataProvider \<Rightarrow> ProcessingMasks \<Rightarrow> nat \<Rightarrow> CollectState \<Rightarrow> error + CollectState"
where
  "countSequence stray dp masks dataCursor s =
     (let n = getInv dp dataCursor in
      if 0 < getJmpb dp n \<and> mask_at stray (pathNodeMask masks) (getJmpb dp n)
      then
        (let typ = getTyp dp n; jmpbTyp = getTyp dp (getJmpb dp n) in
         if (typ = Sequence \<and>
               (jmpbTyp = Sequence \<or> jmpbTyp = DelayedBinary \<or> jmpbTyp = FixedRep)) \<or>
            typ = Repeat \<or> typ = StackedRepeat
         then addToLastCount dp n 1 s
         else Inr s)
      else Inr s)"

text \<open>
  Lines 486--497: the loop that pops both stacks, \<open>k\<close> passes to go;
  \<^verbatim>\<open>pop_back()\<close> of an empty vector is undefined.
\<close>

fun popSequences :: "DataProvider \<Rightarrow> nat \<Rightarrow> CollectState \<Rightarrow> error + CollectState" where
  "popSequences dp 0 s = Inr s"
| "popSequences dp (Suc k) s =
     (if currentPathReturns s = [] \<or> currentPath s = [] then Inl Undefined
      else
        (let seqNodeIdx = last (currentPath s);
             s1 = s\<lparr> currentPathReturns := butlast (currentPathReturns s),
                     currentPath := butlast (currentPath s) \<rparr>
         in if getTyp dp seqNodeIdx = DelayedRep \<or> getTyp dp seqNodeIdx = DelayedRepStacked
            then (case addToLastCount dp (seqNodeIdx + 1) (-1) s1 of
                    Inl e \<Rightarrow> Inl e
                  | Inr s2 \<Rightarrow> popSequences dp k s2)
            else popSequences dp k s1))"

text \<open>
  Lines 479--502. The loop runs for \<open>pathIdx\<close> from \<open>size - 1\<close> down to
  \<open>lastNonZeroReturnIdx\<close>; afterwards \<open>returnNodeIdx\<close> is read from the returns at
  their last index, which is \<open>-1\<close> when they are empty.
\<close>

definition exitSequences ::
  "Stray \<Rightarrow> DataProvider \<Rightarrow> nat \<Rightarrow> CollectState \<Rightarrow> error + CollectState"
where
  "exitSequences stray dp dataCursor s =
     (let n = getInv dp dataCursor in
      if 1 \<le> length (currentPath s) \<and>
         (n = returnNodeIdx s \<or> dataCursor = getNVal dp \<or>
          (1 < length (currentPath s) \<and> n = last (currentPath s) + 1))
      then
        (case popSequences dp
                (nat (int (length (currentPathReturns s)) - lastNonZeroReturnIdx s)) s of
           Inl e \<Rightarrow> Inl e
         | Inr s1 \<Rightarrow>
             Inr (s1\<lparr> lastNonZeroReturnIdx := int (length (currentPathReturns s1)) - 1,
                      returnNodeIdx :=
                        (if currentPathReturns s1 = [] then strayInt stray dataCursor
                         else last (currentPathReturns s1)) \<rparr>))
      else Inr s)"

text \<open>
  Lines 521--527: the walk up \<open>currentPath\<close> for a return node that is not zero, for
  \<open>pathIdx\<close> from \<open>k - 1\<close> down to 0; the pair is \<open>returnNodeIdx\<close> and
  \<open>lastNonZeroReturnIdx\<close>.
\<close>

fun findReturn :: "DataProvider \<Rightarrow> int list \<Rightarrow> nat \<Rightarrow> nat \<Rightarrow> int \<times> int \<Rightarrow> int \<times> int" where
  "findReturn dp cp sz 0 r = r"
| "findReturn dp cp sz (Suc pathIdx) r =
     (let ret = getLink dp (getJmpb dp (cp ! pathIdx));
          r' = (ret, int sz - int pathIdx)
      in if ret \<noteq> 0 then r' else findReturn dp cp sz pathIdx r')"

text \<open>Lines 509--529: a replication opens.\<close>

definition pushSequence :: "DataProvider \<Rightarrow> nat \<Rightarrow> int \<Rightarrow> CollectState \<Rightarrow> CollectState" where
  "pushSequence dp dataCursor n s =
     (let cp = currentPath s @ [n];
          tmpReturnNodeIdx = getLink dp n;
          cpr = currentPathReturns s @ [tmpReturnNodeIdx];
          r = (if tmpReturnNodeIdx \<noteq> 0 then (tmpReturnNodeIdx, int (length cpr) - 1)
               else if dataCursor \<noteq> getNVal dp
               then findReturn dp cp (length cpr) (length cp) (0, 0)
               else (0, 0))
      in s\<lparr> currentPath := cp, currentPathReturns := cpr,
             returnNodeIdx := fst r, lastNonZeroReturnIdx := snd r \<rparr>)"

text \<open>
  Lines 504--533. The \<^verbatim>\<open>push_back(0)\<close> of line 532 stands after the
  \<^verbatim>\<open>if\<close>/\<^verbatim>\<open>else\<close>, so it is done for an absent delayed binary too.
\<close>

definition openSequence ::
  "Stray \<Rightarrow> DataProvider \<Rightarrow> ProcessingMasks \<Rightarrow> nat \<Rightarrow> CollectState \<Rightarrow> error + CollectState"
where
  "openSequence stray dp masks dataCursor s =
     (let n = getInv dp dataCursor in
      if mask_at stray (pathNodeMask masks) n \<and> isQueryNode dp n
      then
        (let s1 = (if getTyp dp n = DelayedBinary \<and> getVal dp dataCursor = 0 then s
                   else pushSequence dp dataCursor n s)
         in pushCount dp (n + 1) 0 s1)
      else Inr s)"

text \<open>The body of the loop over the data cursor up to line 502, and the whole body.\<close>

definition beforeOpen ::
  "Stray \<Rightarrow> DataProvider \<Rightarrow> ProcessingMasks \<Rightarrow> nat \<Rightarrow> CollectState \<Rightarrow> error + CollectState"
where
  "beforeOpen stray dp masks dataCursor s =
     (case captureValue stray dp masks dataCursor s of
        Inl e \<Rightarrow> Inl e
      | Inr s1 \<Rightarrow>
          (case countSequence stray dp masks dataCursor s1 of
             Inl e \<Rightarrow> Inl e
           | Inr s2 \<Rightarrow> exitSequences stray dp dataCursor s2))"

definition collectStep ::
  "Stray \<Rightarrow> DataProvider \<Rightarrow> ProcessingMasks \<Rightarrow> nat \<Rightarrow> CollectState \<Rightarrow> error + CollectState"
where
  "collectStep stray dp masks dataCursor s =
     (case beforeOpen stray dp masks dataCursor s of
        Inl e \<Rightarrow> Inl e
      | Inr s3 \<Rightarrow> openSequence stray dp masks dataCursor s3)"

subsection \<open>\<^verbatim>\<open>QueryRunner::collectData\<close>\<close>

text \<open>Lines 441--534: the loop, over the data cursors still to visit.\<close>

fun collectLoop ::
  "Stray \<Rightarrow> DataProvider \<Rightarrow> ProcessingMasks \<Rightarrow> nat list \<Rightarrow> CollectState \<Rightarrow> error + CollectState"
where
  "collectLoop stray dp masks [] s = Inr s"
| "collectLoop stray dp masks (dataCursor # rest) s =
     (case collectStep stray dp masks dataCursor s of
        Inl e \<Rightarrow> Inl e
      | Inr s' \<Rightarrow> collectLoop stray dp masks rest s')"

definition collectTable ::
  "Stray \<Rightarrow> DataProvider \<Rightarrow> ProcessingMasks \<Rightarrow> error + (int \<Rightarrow> NodeData)"
where
  "collectTable stray dp masks =
     (case collectLoop stray dp masks [1..<Suc (getNVal dp)] initialState of
        Inl e \<Rightarrow> Inl e
      | Inr s \<Rightarrow> Inr (dataTable s))"

text \<open>
  A \<^verbatim>\<open>DataField\<close> as \<open>collectData\<close> fills it; \<open>fieldTarget\<close> and \<open>fieldData\<close> are its
  \<^verbatim>\<open>target\<close> and \<^verbatim>\<open>data\<close>. The frame is the list of its fields by target index.
\<close>

record DataField =
  fieldTarget :: Target
  fieldData :: "real list"
  seqCounts :: "int list list"

text \<open>Lines 549--560: the counts of the sequences of \<open>seqPath\<close>, read at the node after
  each.\<close>

fun seqCountsOf :: "DataProvider \<Rightarrow> (int \<Rightarrow> NodeData) \<Rightarrow> int list \<Rightarrow> error + int list list" where
  "seqCountsOf dp tbl [] = Inr []"
| "seqCountsOf dp tbl (n # ns) =
     (if inTable dp (n + 1)
      then (case seqCountsOf dp tbl ns of
              Inl e \<Rightarrow> Inl e
            | Inr cs \<Rightarrow> Inr (ncounts (tbl (n + 1)) # cs))
      else Inl Undefined)"

text \<open>Lines 537--563: the field of one target.\<close>

definition fieldOf :: "DataProvider \<Rightarrow> (int \<Rightarrow> NodeData) \<Rightarrow> Target \<Rightarrow> error + DataField" where
  "fieldOf dp tbl targ =
     (if nodeIdx targ = 0
      then Inr \<lparr> fieldTarget = targ, fieldData = [MissingValue], seqCounts = [[1]] \<rparr>
      else
        (case seqCountsOf dp tbl (seqPath targ) of
           Inl e \<Rightarrow> Inl e
         | Inr cs \<Rightarrow>
             if inTable dp (nodeIdx targ)
             then Inr \<lparr> fieldTarget = targ, fieldData = nvalues (tbl (nodeIdx targ)),
                        seqCounts = [1] # cs \<rparr>
             else Inl Undefined))"

fun fieldsOf :: "DataProvider \<Rightarrow> (int \<Rightarrow> NodeData) \<Rightarrow> Target list \<Rightarrow> error + DataField list" where
  "fieldsOf dp tbl [] = Inr []"
| "fieldsOf dp tbl (targ # targets) =
     (case fieldOf dp tbl targ of
        Inl e \<Rightarrow> Inl e
      | Inr f \<Rightarrow>
          (case fieldsOf dp tbl targets of
             Inl e \<Rightarrow> Inl e
           | Inr fs \<Rightarrow> Inr (f # fs)))"

definition collectData ::
  "Stray \<Rightarrow> DataProvider \<Rightarrow> Target list \<Rightarrow> ProcessingMasks \<Rightarrow> error + DataField list"
where
  "collectData stray dp targets masks =
     (case collectTable stray dp masks of
        Inl e \<Rightarrow> Inl e
      | Inr tbl \<Rightarrow> fieldsOf dp tbl targets)"

subsection \<open>\<^verbatim>\<open>QueryRunner::getDimInfo\<close>\<close>

text \<open>
  \<^verbatim>\<open>s.substr(1, s.size() - 2)\<close> of a tag: it throws when the tag is empty, and is
  empty for a tag of one character (the length wraps, the substring ends with the
  string).
\<close>

definition stripTag :: "string \<Rightarrow> error + string" where
  "stripTag s = (if s = [] then Inl out_of_range else Inr (take (length s - 2) (drop 1 s)))"

text \<open>
  The loop of lines 403--418 from \<open>branchIdx\<close> on, \<open>k\<close> passes to go; the state is
  \<open>currentDimPath\<close>, \<open>dimPaths\<close> and \<open>dimIdxs\<close>.
\<close>

fun dimInfoLoop ::
  "DataProvider \<Rightarrow> TargetComponent list \<Rightarrow> nat \<Rightarrow> nat \<Rightarrow> string \<times> string list \<times> int list \<Rightarrow>
   error + string \<times> string list \<times> int list"
where
  "dimInfoLoop dp components branchIdx 0 st = Inr st"
| "dimInfoLoop dp components branchIdx (Suc k) (currentDimPath, dPaths, dIdxs) =
     (if length components \<le> branchIdx + 1 then Inl Undefined
      else
        (let n = branch (components ! (branchIdx + 1)) in
         case stripTag (getTag dp n) of
           Inl e \<Rightarrow> Inl e
         | Inr mnemonic \<Rightarrow>
             (let currentDimPath' = currentDimPath @ ''/'' @ mnemonic in
              dimInfoLoop dp components (branchIdx + 1) k
                (if getTyp dp n = DelayedRep \<or> getTyp dp n = FixedRep \<or>
                    getTyp dp n = DelayedRepStacked
                 then (currentDimPath', dPaths @ [currentDimPath'],
                       dIdxs @ [int branchIdx + 1])
                 else (currentDimPath', dPaths, dIdxs)))))"

definition getDimInfo ::
  "DataProvider \<Rightarrow> TargetComponent list \<Rightarrow> int \<Rightarrow> error + string list \<times> int list"
where
  "getDimInfo dp components mCursor =
     (if 0 \<le> mCursor
      then (case dimInfoLoop dp components 0 (nat (mCursor + 1)) (''*'', [''*''], [0]) of
              Inl e \<Rightarrow> Inl e
            | Inr (cur, dPaths, dIdxs) \<Rightarrow> Inr (dPaths, dIdxs))
      else Inr ([''*''], [0]))"

subsection \<open>\<^verbatim>\<open>QueryRunner::findTarget\<close>: the scan of the nodes\<close>

text \<open>
  The variables of the loop over the nodes (lines 259--336). \<open>scanSeqPath\<close>,
  \<open>scanDimPaths\<close> and \<open>scanDimIdxs\<close> are the locals \<^verbatim>\<open>seqPath\<close>, \<^verbatim>\<open>dimPaths\<close> and
  \<^verbatim>\<open>dimIdxs\<close>.
\<close>

record ScanState =
  targetNodes :: "int list"
  scanSeqPath :: "int list"
  scanDimPaths :: "string list"
  scanDimIdxs :: "int list"
  targetComponents :: "TargetComponent list"
  tableCursor :: int
  mnemonicCursor :: int

text \<open>
  Lines 263--283. \<^verbatim>\<open>query.path[mnemonicCursor + 1]\<close> is read before
  \<open>tableCursor\<close> is compared; outside the path it is undefined.
\<close>

definition visitNode :: "DataProvider \<Rightarrow> Query \<Rightarrow> int \<Rightarrow> ScanState \<Rightarrow> error + ScanState" where
  "visitNode dp q n st =
     (let mc = mnemonicCursor st; tc = tableCursor st in
      if getTyp dp n = Sequence \<or> getTyp dp n = Repeat \<or> getTyp dp n = StackedRepeat
      then
        (if isQueryNode dp (n - 1)
         then
           (if mc + 1 < 0 \<or> int (length (qpath q)) \<le> mc + 1 then Inl Undefined
            else
              (let st1 =
                     (if getTag dp n = name (qpath q ! nat (mc + 1)) \<and> tc = mc
                      then st\<lparr> mnemonicCursor := mc + 1,
                               targetComponents :=
                                 (targetComponents st)
                                   [nat (mc + 2) :=
                                      (targetComponents st ! nat (mc + 2))\<lparr> branch := n - 1 \<rparr>] \<rparr>
                      else st)
               in Inr (st1\<lparr> tableCursor := tc + 1,
                           scanSeqPath := scanSeqPath st1 @ [n] \<rparr>)))
         else Inr (st\<lparr> scanSeqPath := scanSeqPath st @ [n] \<rparr>))
      else if mc = int (length (qpath q)) - 2 \<and> tc = mc \<and>
              getTag dp n = name (last (qpath q))
      then
        (case getDimInfo dp (targetComponents st) mc of
           Inl e \<Rightarrow> Inl e
         | Inr (dPaths, dIdxs) \<Rightarrow>
             Inr (st\<lparr> targetNodes := targetNodes st @ [n],
                      scanDimPaths := dPaths, scanDimIdxs := dIdxs \<rparr>))
      else Inr st)"

text \<open>
  The \<^verbatim>\<open>while\<close> loop of lines 293--308: up through the pure sequences that are not
  the body of a replication. It need not end (two sequences that are each other's
  jump-back node): not returning is \<open>None\<close>.
\<close>

partial_function (option) jumpBack :: "DataProvider \<Rightarrow> int \<Rightarrow> int option" where
  "jumpBack dp jumpBackNode =
     (if getTyp dp jumpBackNode = Sequence \<and>
         getTyp dp (jumpBackNode - 1) \<noteq> DelayedRep \<and>
         getTyp dp (jumpBackNode - 1) \<noteq> FixedRep \<and>
         getTyp dp (jumpBackNode - 1) \<noteq> DelayedRepStacked \<and>
         getTyp dp (jumpBackNode - 1) \<noteq> DelayedBinary
      then
        (let newJumpBackNode = getJmpb dp jumpBackNode in
         if newJumpBackNode \<noteq> jumpBackNode then jumpBack dp newJumpBackNode
         else Some jumpBackNode)
      else Some jumpBackNode)"

declare jumpBack.simps [code]

text \<open>Lines 288--309: the node to jump back to after node \<open>n\<close>.\<close>

definition jumpBackNodeOf :: "DataProvider \<Rightarrow> int \<Rightarrow> int option" where
  "jumpBackNodeOf dp n =
     (if n < getIsc dp (getInode dp)
      then jumpBack dp (if getJmpb dp (n + 1) = 0 then getInode dp else getJmpb dp (n + 1))
      else Some (getInode dp))"

text \<open>Lines 316--317: the search, for \<open>pathIdx\<close> from \<open>k - 1\<close> down to 0.\<close>

fun findBack :: "int list \<Rightarrow> int \<Rightarrow> nat \<Rightarrow> nat option" where
  "findBack sp j 0 = None"
| "findBack sp j (Suc pathIdx) = (if sp ! pathIdx = j then Some pathIdx else findBack sp j pathIdx)"

text \<open>Lines 318--331: \<open>k\<close> sequences are left, the innermost first.\<close>

fun rewind :: "DataProvider \<Rightarrow> nat \<Rightarrow> ScanState \<Rightarrow> ScanState" where
  "rewind dp 0 st = st"
| "rewind dp (Suc k) st =
     (let st1 =
            (if isQueryNode dp (last (scanSeqPath st) - 1)
             then st\<lparr> mnemonicCursor :=
                        (if -1 < mnemonicCursor st \<and> tableCursor st = mnemonicCursor st
                         then mnemonicCursor st - 1 else mnemonicCursor st),
                      tableCursor := tableCursor st - 1 \<rparr>
             else st)
      in rewind dp k (st1\<lparr> scanSeqPath := butlast (scanSeqPath st1) \<rparr>))"

text \<open>Lines 286--335.\<close>

definition stepBack :: "DataProvider \<Rightarrow> int \<Rightarrow> ScanState \<Rightarrow> ScanState option" where
  "stepBack dp n st =
     (if 1 < length (scanSeqPath st)
      then
        (case jumpBackNodeOf dp n of
           None \<Rightarrow> None
         | Some j \<Rightarrow>
             (case findBack (scanSeqPath st) j (length (scanSeqPath st) - 1) of
                None \<Rightarrow> Some st
              | Some pathIdx \<Rightarrow> Some (rewind dp (length (scanSeqPath st) - 1 - pathIdx) st)))
      else Some st)"

text \<open>The loop over the nodes still to visit.\<close>

fun scanLoop :: "DataProvider \<Rightarrow> Query \<Rightarrow> int list \<Rightarrow> ScanState \<Rightarrow> (error + ScanState) option" where
  "scanLoop dp q [] st = Some (Inr st)"
| "scanLoop dp q (n # ns) st =
     (case visitNode dp q n st of
        Inl e \<Rightarrow> Some (Inl e)
      | Inr st1 \<Rightarrow>
          (case stepBack dp n st1 of
             None \<Rightarrow> None
           | Some st2 \<Rightarrow> scanLoop dp q ns st2))"

text \<open>
  Lines 245--257: the components start with the subset, then one \<open>TRepeat\<close> per path
  component, and the last of them all is made a \<open>TValue\<close>.
\<close>

definition initialComponents :: "Query \<Rightarrow> TargetComponent list" where
  "initialComponents q =
     (let comps =
            \<lparr> queryComponent = QueryComponent.truncate (subset q), branch = 0,
              ctype = TSubset \<rparr> #
            map (\<lambda>pc. \<lparr> queryComponent = pc, branch = 0, ctype = TRepeat \<rparr>) (qpath q)
      in butlast comps @ [(last comps)\<lparr> ctype := TValue \<rparr>])"

definition scanNodes :: "DataProvider \<Rightarrow> Query \<Rightarrow> (error + ScanState) option" where
  "scanNodes dp q =
     scanLoop dp q [getInode dp..getIsc dp (getInode dp)]
       \<lparr> targetNodes = [], scanSeqPath = [getInode dp], scanDimPaths = [], scanDimIdxs = [],
         targetComponents = initialComponents q, tableCursor = -1, mnemonicCursor = -1 \<rparr>"

subsection \<open>\<^verbatim>\<open>QueryRunner::findTarget\<close>\<close>

text \<open>
  Modelled from the spec: \<^verbatim>\<open>Target::setPath\<close> is missing. It stores the path, and
  \<open>seqPath\<close> is the branches of the path's replicated sequences.
\<close>

definition setPath :: "TargetComponent list \<Rightarrow> Target \<Rightarrow> Target" where
  "setPath components t =
     t\<lparr> tpath := components,
        seqPath := map branch (filter (\<lambda>c. ctype c = TRepeat) components) \<rparr>"

text \<open>Lines 338--342: the index of the last path component narrows the targets.\<close>

definition narrowTargets :: "Query \<Rightarrow> int list \<Rightarrow> int list" where
  "narrowTargets q tNodes =
     (if 0 < index (last (qpath q)) \<and> index (last (qpath q)) \<le> length tNodes
      then [tNodes ! (index (last (qpath q)) - 1)]
      else tNodes)"

definition ambiguousQuery :: "string \<Rightarrow> error" where
  "ambiguousQuery qStr =
     BadParameter
       (''Query string must return 1 target. Are you missing an index? '' @ qStr @ ''.'')"

text \<open>
  Lines 351--370: the target for the nodes that are left. \<open>newTarget\<close> is the
  default-constructed \<^verbatim>\<open>Target\<close> and \<open>newInfo\<close> the default-constructed
  \<^verbatim>\<open>TypeInfo\<close>, whose constructors are missing.
\<close>

definition makeTarget ::
  "Target \<Rightarrow> TypeInfo \<Rightarrow> DataProvider \<Rightarrow> string \<Rightarrow> Query \<Rightarrow> ScanState \<Rightarrow> int list \<Rightarrow> Target"
where
  "makeTarget newTarget newInfo dp targetName q st tNodes =
     (let t = (setPath (targetComponents st) newTarget)
                \<lparr> tname := targetName, tqueryStr := queryStr q,
                  nodeIdx := (if tNodes \<noteq> [] then hd tNodes else 0) \<rparr>
      in if tNodes \<noteq> []
         then t\<lparr> dimPaths := scanDimPaths st, exportDimIdxs := scanDimIdxs st,
                 typeInfo := getTypeInfo dp (hd tNodes) \<rparr>
         else t\<lparr> dimPaths := [''*''], exportDimIdxs := [0], typeInfo := newInfo \<rparr>)"

text \<open>Lines 338--370; \<^verbatim>\<open>query.path.back()\<close> of an empty path is undefined.\<close>

definition finishTarget ::
  "Target \<Rightarrow> TypeInfo \<Rightarrow> DataProvider \<Rightarrow> string \<Rightarrow> Query \<Rightarrow> ScanState \<Rightarrow> error + Target"
where
  "finishTarget newTarget newInfo dp targetName q st =
     (if qpath q = [] then Inl Undefined
      else
        (let tNodes = narrowTargets q (targetNodes st) in
         if 1 < length tNodes then Inl (ambiguousQuery (queryStr q))
         else Inr (makeTarget newTarget newInfo dp targetName q st tNodes)))"

text \<open>Lines 228--238: the target of a query that does not apply to the subset.\<close>

definition notApplicable :: "Target \<Rightarrow> TypeInfo \<Rightarrow> string \<Rightarrow> Query \<Rightarrow> Target" where
  "notApplicable newTarget newInfo targetName q =
     (setPath [] newTarget)
       \<lparr> tname := targetName, tqueryStr := queryStr q, dimPaths := [''*''],
         exportDimIdxs := [0], typeInfo := newInfo \<rparr>"

definition findTarget ::
  "Target \<Rightarrow> TypeInfo \<Rightarrow> DataProvider \<Rightarrow> string \<Rightarrow> Query \<Rightarrow> (error + Target) option"
where
  "findTarget newTarget newInfo dp targetName q =
     (if \<not> (isAnySubset (subset q) \<or> name (subset q) = getSubset dp)
      then Some (Inr (notApplicable newTarget newInfo targetName q))
      else
        (case scanNodes dp q of
           None \<Rightarrow> None
         | Some (Inl e) \<Rightarrow> Some (Inl e)
         | Some (Inr st) \<Rightarrow> Some (finishTarget newTarget newInfo dp targetName q st)))"

subsection \<open>Concrete frames\<close>

text \<open>
  A field \<open>temp\<close>, the leaf \<open>TEMP\<close> (node 4) of the replicated sequence \<open>OBS\<close>
  (node 2), and a second field \<open>lat\<close> under another sequence \<open>LOC\<close>. A frame holds
  counts \<open>[1]\<close> for the subset component, the counts \<open>cs\<close> of \<open>OBS\<close> and the
  values \<open>vs\<close> of \<open>TEMP\<close>.
\<close>

definition exTarget :: "TypeInfo \<Rightarrow> Target" where
  "exTarget ti =
     \<lparr> tname = ''temp'', tqueryStr = ''*/OBS/TEMP'', nodeIdx = 4,
       tpath = [\<lparr> queryComponent = \<lparr> name = ''*'', index = 0 \<rparr>, branch = 0, ctype = TSubset \<rparr>,
                \<lparr> queryComponent = \<lparr> name = ''OBS'', index = 0 \<rparr>, branch = 2, ctype = TRepeat \<rparr>,
                \<lparr> queryComponent = \<lparr> name = ''TEMP'', index = 0 \<rparr>, branch = 4, ctype = TValue \<rparr>],
       seqPath = [2],
       typeInfo = ti,
       dimPaths = [''*'', ''*/OBS''], exportDimIdxs = [0, 1] \<rparr>"

definition exGroupBy :: Target where
  "exGroupBy =
     \<lparr> tname = ''lat'', tqueryStr = ''*/LOC/CLAT'', nodeIdx = 7,
       tpath = [\<lparr> queryComponent = \<lparr> name = ''*'', index = 0 \<rparr>, branch = 0, ctype = TSubset \<rparr>,
                \<lparr> queryComponent = \<lparr> name = ''LOC'', index = 0 \<rparr>, branch = 5, ctype = TRepeat \<rparr>,
                \<lparr> queryComponent = \<lparr> name = ''CLAT'', index = 0 \<rparr>, branch = 7, ctype = TValue \<rparr>],
       seqPath = [5],
       typeInfo = \<lparr> scale = 2, reference = -9000, bits = 15, unit = ''DEGREES'' \<rparr>,
       dimPaths = [''*'', ''*/LOC''], exportDimIdxs = [0, 1] \<rparr>"

definition exFrame :: "TypeInfo \<Rightarrow> int list \<Rightarrow> real list \<Rightarrow> DataFrame" where
  "exFrame ti cs vs =
     \<lparr> getTargets = [exTarget ti, exGroupBy],
       entryAt = (\<lambda>i. if i = 0 then \<lparr> counts = [1], data = [] \<rparr>
                       else if i = 2 then \<lparr> counts = cs, data = [] \<rparr>
                       else if i = 4 then \<lparr> counts = [], data = vs \<rparr>
                       else \<lparr> counts = [], data = [] \<rparr>) \<rparr>"

definition kelvin :: TypeInfo where
  "kelvin = \<lparr> scale = 1, reference = 0, bits = 12, unit = ''K'' \<rparr>"

definition exInfo :: TypeInfo where
  "exInfo = \<lparr> scale = 0, reference = 0, bits = 0, unit = [] \<rparr>"

text \<open>Sample member functions of \<^verbatim>\<open>TypeInfo\<close> and a character field.\<close>

definition exMethods :: TypeInfoMethods where
  "exMethods =
     \<lparr> isString = (\<lambda>ti. unit ti = ''CCITT IA5''),
       isInteger = (\<lambda>ti. scale ti \<le> 0),
       isSigned = (\<lambda>ti. reference ti < 0),
       is64Bit = (\<lambda>ti. 32 < bits ti) \<rparr>"

definition ccitt :: TypeInfo where
  "ccitt = \<lparr> scale = 0, reference = 0, bits = 64, unit = ''CCITT IA5'' \<rparr>"

text \<open>The override types \<^verbatim>\<open>objectByType\<close> knows.\<close>

definition knownTypes :: "string list" where
  "knownTypes = [''int'', ''int32'', ''int64'', ''float'', ''double'', ''string'']"


subsection \<open>Notions the statements use\<close>

text \<open>The type information of the field's target in every frame, in frame order.\<close>

definition frameTypeInfos :: "nat \<Rightarrow> DataFrame list \<Rightarrow> TypeInfo list" where
  "frameTypeInfos targetIdx frames = map (\<lambda>f. typeInfo (getTargets f ! targetIdx)) frames"

text \<open>The first non-empty string of a list, the empty string when there is none.\<close>

definition firstNonEmpty :: "string list \<Rightarrow> string" where
  "firstNonEmpty us = (case List.find (\<lambda>u. u \<noteq> []) us of None \<Rightarrow> [] | Some u \<Rightarrow> u)"

text \<open>Sample type informations.\<close>

definition celsius :: TypeInfo where
  "celsius = \<lparr> scale = 2, reference = -10, bits = 16, unit = ''C'' \<rparr>"

definition unitless :: TypeInfo where
  "unitless = \<lparr> scale = 1, reference = -5, bits = 12, unit = [] \<rparr>"

definition coarse :: TypeInfo where
  "coarse = \<lparr> scale = -3, reference = 5, bits = 12, unit = ''K'' \<rparr>"

definition fine :: TypeInfo where
  "fine = \<lparr> scale = 1, reference = 7, bits = 12, unit = ''K'' \<rparr>"


text \<open>
  The counts vectors the inner loop of \<open>getRawValues\<close> examines in one frame: those of
  the path components but the last, up to the first empty one.
\<close>

definition examined :: "DataFrame \<Rightarrow> TargetComponent list \<Rightarrow> int list list" where
  "examined frame ps =
     takeWhile (\<lambda>c. c \<noteq> []) (map (\<lambda>p. counts (entryAt frame (nodeId p))) ps)"

definition examinedCounts :: "nat \<Rightarrow> DataFrame \<Rightarrow> int list list" where
  "examinedCounts targetIdx frame =
     examined frame (butlast (tpath (getTargets frame ! targetIdx)))"

text \<open>
  The running maximum of dimension \<open>k\<close>: the largest count of that dimension in the
  frames processed so far in which the dimension was examined, starting from \<open>m0\<close>
  (from zero in \<open>runningMax\<close>, as \<open>getRawValues\<close> starts).
\<close>

definition maxStep :: "nat \<Rightarrow> nat \<Rightarrow> DataFrame \<Rightarrow> int \<Rightarrow> int" where
  "maxStep targetIdx k frame m =
     (if k < length (examinedCounts targetIdx frame)
      then max m (max_vec (examinedCounts targetIdx frame ! k)) else m)"

definition runningMaxFrom :: "nat \<Rightarrow> DataFrame list \<Rightarrow> nat \<Rightarrow> int \<Rightarrow> int" where
  "runningMaxFrom targetIdx frames k m0 = fold (maxStep targetIdx k) frames m0"

definition runningMax :: "nat \<Rightarrow> DataFrame list \<Rightarrow> nat \<Rightarrow> int" where
  "runningMax targetIdx frames k = runningMaxFrom targetIdx frames k 0"

text \<open>
  A field under two nested replications: \<open>SPD\<close> (node 6) in the sequence \<open>WIND\<close>
  (node 4) in the sequence \<open>LEVEL\<close> (node 2). A frame holds the counts \<open>outer\<close> of
  \<open>LEVEL\<close>, the counts \<open>inner\<close> of \<open>WIND\<close> and the values \<open>vs\<close>; \<open>nestInit\<close> is
  the state in which \<open>getRawValues\<close> enters the loop over the frames for that field.
\<close>

definition nestTarget :: Target where
  "nestTarget =
     \<lparr> tname = ''speed'', tqueryStr = ''*/LEVEL/WIND/SPD'', nodeIdx = 6,
       tpath = [\<lparr> queryComponent = \<lparr> name = ''*'', index = 0 \<rparr>, branch = 0, ctype = TSubset \<rparr>,
                \<lparr> queryComponent = \<lparr> name = ''LEVEL'', index = 0 \<rparr>, branch = 2, ctype = TRepeat \<rparr>,
                \<lparr> queryComponent = \<lparr> name = ''WIND'', index = 0 \<rparr>, branch = 4, ctype = TRepeat \<rparr>,
                \<lparr> queryComponent = \<lparr> name = ''SPD'', index = 0 \<rparr>, branch = 6, ctype = TValue \<rparr>],
       seqPath = [2, 4],
       typeInfo = kelvin,
       dimPaths = [''*'', ''*/LEVEL'', ''*/LEVEL/WIND''], exportDimIdxs = [0, 1, 2] \<rparr>"

definition nestFrame :: "int list \<Rightarrow> int list \<Rightarrow> real list \<Rightarrow> DataFrame" where
  "nestFrame outer inner vs =
     \<lparr> getTargets = [nestTarget],
       entryAt = (\<lambda>i. if i = 0 then \<lparr> counts = [1], data = [] \<rparr>
                       else if i = 2 then \<lparr> counts = outer, data = [] \<rparr>
                       else if i = 4 then \<lparr> counts = inner, data = [] \<rparr>
                       else if i = 6 then \<lparr> counts = [], data = vs \<rparr>
                       else \<lparr> counts = [], data = [] \<rparr>) \<rparr>"

definition nestInit :: DimsState where
  "nestInit = \<lparr> dimsList = [0, 0, 0], jagged = False, info = exInfo, dimPathsOut = [],
                exportDims = [], target = nestTarget \<rparr>"


subsection \<open>A concrete subset\<close>

text \<open>
  A subset of eight nodes: the delayed replication 2 of the sequence 3, which holds the
  leaf \<open>TEMP\<close> (node 4), and the delayed binary 5 that gates the sequence 6 with the
  leaves 7 and 8. In the value stream the replication runs twice and the delayed
  binary carries 0, so the nodes 6 to 8 are absent. The masks are those of the fields
  \<open>temp\<close> (node 4 under 2) and \<open>w\<close> (node 7 under 5); \<open>emptyTarget\<close> is a target
  that did not resolve.
\<close>

definition exProvider :: DataProvider where
  "exProvider =
     \<lparr> getSubset = ''NC000000'',
       getInode = 1,
       getIsc = (\<lambda>n. 8),
       getNVal = 8,
       getInv = (\<lambda>c. if c = 1 then 1 else if c = 2 then 2 else if c = 3 then 3
                     else if c = 4 then 4 else if c = 5 then 3 else if c = 6 then 4
                     else if c = 7 then 3 else 5),
       getVal = (\<lambda>c. if c = 2 then 2 else if c = 4 then 273 else if c = 6 then 274 else 0),
       getTyp = (\<lambda>n. if n = 1 then Subset else if n = 2 then DelayedRep
                     else if n = 3 then Repeat else if n = 5 then DelayedBinary
                     else if n = 6 then Sequence else Number),
       getTag = (\<lambda>n. if n = 1 then ''NC000000'' else if n = 2 then ''{OBS}''
                     else if n = 3 then ''OBS'' else if n = 4 then ''TEMP''
                     else if n = 5 then ''<GATE>'' else if n = 6 then ''GATE''
                     else if n = 7 then ''W'' else ''V''),
       getJmpb = (\<lambda>n. if n = 2 then 1 else if n = 3 then 2 else if n = 4 then 3
                      else if n = 5 then 1 else if n = 6 then 5 else if n = 7 then 6
                      else if n = 8 then 6 else 0),
       getLink = (\<lambda>n. if n = 2 then 5 else 0),
       getTypeInfo = (\<lambda>n. kelvin) \<rparr>"

definition exMasks :: ProcessingMasks where
  "exMasks =
     \<lparr> valueNodeMask = [False, False, False, False, True, False, False, True],
       pathNodeMask = [False, False, True, False, False, True, False, False] \<rparr>"

definition exStray :: Stray where
  "exStray = \<lparr> strayBit = (\<lambda>n. False), strayInt = (\<lambda>c. -7) \<rparr>"

definition gateTarget :: Target where
  "gateTarget =
     \<lparr> tname = ''w'', tqueryStr = ''*/GATE/W'', nodeIdx = 7,
       tpath = [\<lparr> queryComponent = \<lparr> name = ''*'', index = 0 \<rparr>, branch = 0, ctype = TSubset \<rparr>,
                \<lparr> queryComponent = \<lparr> name = ''GATE'', index = 0 \<rparr>, branch = 5, ctype = TRepeat \<rparr>,
                \<lparr> queryComponent = \<lparr> name = ''W'', index = 0 \<rparr>, branch = 7, ctype = TValue \<rparr>],
       seqPath = [5],
       typeInfo = kelvin,
       dimPaths = [''*''], exportDimIdxs = [0] \<rparr>"

definition emptyTarget :: Target where
  "emptyTarget =
     \<lparr> tname = ''nope'', tqueryStr = ''*/NOPE'', nodeIdx = 0,
       tpath = [], seqPath = [],
       typeInfo = exInfo,
       dimPaths = [''*''], exportDimIdxs = [0] \<rparr>"

text \<open>The state of \<open>collectData\<close> after the first seven data cursors.\<close>

definition exState7 :: CollectState where
  "exState7 =
     \<lparr> currentPath = [2], currentPathReturns = [5], returnNodeIdx = 5,
       lastNonZeroReturnIdx = 0,
       dataTable = (\<lambda>n. if n = 3 then \<lparr> nvalues = [], ncounts = [3] \<rparr>
                         else if n = 4 then \<lparr> nvalues = [273, 274], ncounts = [] \<rparr>
                         else \<lparr> nvalues = [], ncounts = [] \<rparr>) \<rparr>"


subsection \<open>A subset with two leaves of one name\<close>

text \<open>
  The delayed replication 2 of the sequence \<open>OBS\<close> (node 3), which holds two leaves
  \<open>TEMP\<close> (nodes 4 and 5), and a leaf \<open>X\<close> after it; the query \<open>*/OBS/TEMP\<close> with
  the index \<open>i\<close> at its last component; and the state in which the scan of the nodes
  ends for that query.
\<close>

definition dupProvider :: DataProvider where
  "dupProvider =
     \<lparr> getSubset = ''NC000000'',
       getInode = 1,
       getIsc = (\<lambda>n. 6),
       getNVal = 0,
       getInv = (\<lambda>c. 0),
       getVal = (\<lambda>c. 0),
       getTyp = (\<lambda>n. if n = 1 then Subset else if n = 2 then DelayedRep
                     else if n = 3 then Repeat else Number),
       getTag = (\<lambda>n. if n = 1 then ''NC000000'' else if n = 2 then ''{OBS}''
                     else if n = 3 then ''OBS'' else if n = 4 then ''TEMP''
                     else if n = 5 then ''TEMP'' else ''X''),
       getJmpb = (\<lambda>n. if n = 2 then 1 else if n = 3 then 2 else if n = 4 then 3
                      else if n = 5 then 3 else if n = 6 then 1 else 0),
       getLink = (\<lambda>n. 0),
       getTypeInfo = (\<lambda>n. kelvin) \<rparr>"

definition tempQuery :: "nat \<Rightarrow> Query" where
  "tempQuery i =
     \<lparr> subset = \<lparr> name = ''*'', index = 0, isAnySubset = True \<rparr>,
       qpath = [\<lparr> name = ''OBS'', index = 0 \<rparr>, \<lparr> name = ''TEMP'', index = i \<rparr>],
       queryStr = ''*/OBS/TEMP'' \<rparr>"

definition dupScan :: "nat \<Rightarrow> ScanState" where
  "dupScan i =
     \<lparr> targetNodes = [4, 5], scanSeqPath = [1],
       scanDimPaths = [''*'', ''*/OBS''], scanDimIdxs = [0, 1],
       targetComponents =
         [\<lparr> queryComponent = \<lparr> name = ''*'', index = 0 \<rparr>, branch = 0, ctype = TSubset \<rparr>,
          \<lparr> queryComponent = \<lparr> name = ''OBS'', index = 0 \<rparr>, branch = 2, ctype = TRepeat \<rparr>,
          \<lparr> queryComponent = \<lparr> name = ''TEMP'', index = i \<rparr>, branch = 0, ctype = TValue \<rparr>],
       tableCursor = -1, mnemonicCursor = -1 \<rparr>"


section \<open>Properties\<close>

subsection \<open>\<^verbatim>\<open>splitPath\<close>\<close>

lemma str_find_hit:
  "CHR ''/'' \<notin> set c \<Longrightarrow>
   str_find (pre @ c @ CHR ''/'' # rest) (CHR ''/'') (length pre) = Some (length pre + length c)"
proof -
  assume c: "CHR ''/'' \<notin> set c"
  have "length (takeWhile (\<lambda>x. x \<noteq> CHR ''/'') (c @ CHR ''/'' # rest)) = length c"
    using c by (subst takeWhile_append2) auto
  then show ?thesis
    by (simp add: str_find_def Let_def)
qed

lemma str_find_miss:
  "CHR ''/'' \<notin> set c \<Longrightarrow> str_find (pre @ c) (CHR ''/'') (length pre) = None"
proof -
  assume c: "CHR ''/'' \<notin> set c"
  have "length (takeWhile (\<lambda>x. x \<noteq> CHR ''/'') c) = length c"
  proof -
    have "takeWhile (\<lambda>x. x \<noteq> CHR ''/'') c = c"
      using c by (intro takeWhile_eq_all_conv [THEN iffD2]) auto
    then show ?thesis by (rule arg_cong)
  qed
  then show ?thesis
    by (simp add: str_find_def Let_def)
qed

lemma splitPath_loop_join:
  "\<forall>c \<in> set comps. c \<noteq> [] \<and> CHR ''/'' \<notin> set c \<Longrightarrow>
   splitPath_loop (pre @ joinPath comps) (length pre) acc = acc @ comps"
proof (induction comps arbitrary: pre acc rule: joinPath.induct)
  case 1
  then show ?case
    using str_find_miss [of "[]" pre] by simp
next
  case (2 c)
  then show ?case
    using str_find_miss [of c pre] by (simp add: substr_from_def)
next
  case (3 c d cs)
  have hit: "str_find (pre @ c @ CHR ''/'' # joinPath (d # cs)) (CHR ''/'') (length pre)
               = Some (length pre + length c)"
    using 3 by (intro str_find_hit) simp
  have step: "splitPath_loop ((pre @ c @ [CHR ''/'']) @ joinPath (d # cs))
                (length (pre @ c @ [CHR ''/''])) (acc @ [c]) = (acc @ [c]) @ d # cs"
    using 3 by (intro "3.IH") simp
  have "splitPath_loop (pre @ joinPath (c # d # cs)) (length pre) acc
          = splitPath_loop (pre @ c @ CHR ''/'' # joinPath (d # cs)) (length pre + length c + 1)
              (acc @ [substr (pre @ c @ CHR ''/'' # joinPath (d # cs)) (length pre) (length c)])"
    using 3 hit by (subst splitPath_loop.simps) simp
  also have "substr (pre @ c @ CHR ''/'' # joinPath (d # cs)) (length pre) (length c) = c"
    by (simp add: substr_def)
  finally show ?case
    using step by simp
qed

text \<open>
  C9 (as amended). For every non-empty list \<open>comps\<close> of non-empty components none of
  which contains the separator \<open>/\<close>, \<open>splitPath\<close> applied to the components joined
  with \<open>/\<close> returns exactly \<open>comps\<close>.
\<close>

theorem splitPath_joinPath:
  assumes "comps \<noteq> []"
    and "\<forall>c \<in> set comps. c \<noteq> [] \<and> CHR ''/'' \<notin> set c"
  shows "splitPath (joinPath comps) = comps"
  using splitPath_loop_join [OF assms(2), of "[]" "[]"] by (simp add: splitPath_def)

theorem splitPath_joinPath_witness:
  "splitPath (joinPath [''*'', ''OBS'', ''TEMP'']) = [''*'', ''OBS'', ''TEMP'']"
  using splitPath_joinPath [of "[''*'', ''OBS'', ''TEMP'']"] by simp

text \<open>
  C9 as stated fails for a component that itself contains \<open>/\<close>: the one-component
  list \<open>[''a/b'']\<close> joins to \<open>''a/b''\<close>, which splits into two components.
\<close>

theorem splitPath_joinPath_counterexample:
  "[''a/b''] \<noteq> [] \<and> ''a/b'' \<noteq> [] \<and>
   joinPath [''a/b''] = ''a/b'' \<and>
   splitPath (joinPath [''a/b'']) = [''a'', ''b''] \<and>
   splitPath (joinPath [''a/b'']) \<noteq> [''a/b'']"
  by (simp add: splitPath_def str_find_def substr_def substr_from_def)

subsection \<open>Evaluation and the errors of \<^verbatim>\<open>getRawValues\<close>\<close>

lemmas ev = getRawValues_def exFrame_def exTarget_def exGroupBy_def exInfo_def kelvin_def
  findTargetIdx_def vec_at_def groupByCheck_def groupByTarget_def frameStep_def nodeId_def
  mergeTypeInfo_def rowLengthOf_def product_def resize_def copyPlain_def MissingValue_def
  liftZeroDims_def Let_def

lemma dimsLoop_err: "dimsLoop frame ps k st = Inl e \<Longrightarrow> e = Undefined"
  by (induction frame ps k st rule: dimsLoop.induct) (auto simp: Let_def split: if_splits)

lemma frameStep_err: "frameStep ti frame st = Inl e \<Longrightarrow> e = Undefined \<or> e = out_of_range"
  by (auto simp: frameStep_def vec_at_def Let_def split: sum.splits if_splits prod.splits
      dest: dimsLoop_err)

lemma framesLoop_err: "framesLoop ti frames st = Inl e \<Longrightarrow> e = Undefined \<or> e = out_of_range"
  by (induction frames arbitrary: st) (auto split: sum.splits dest: frameStep_err)

lemma writeAll_err: "writeAll ixs vs off dat = Inl e \<Longrightarrow> e = Undefined"
  by (induction ixs vs off dat rule: writeAll.induct) (auto split: if_splits)

lemma copyLoop_err:
  "copyLoop jag dims rl ti frames fi st = Inl e \<Longrightarrow> e = Undefined \<or> e = out_of_range"
proof (induction jag dims rl ti frames fi st rule: copyLoop.induct)
  case (1 jag dims rowLength targetIdx frameIdx st)
  then show ?case by simp
next
  case (2 jag dims rowLength targetIdx frame rest frameIdx dat targ)
  then show ?case
    by (auto simp: Let_def vec_at_def copyJagged_def copyPlain_def
        split: sum.splits if_splits dest: writeAll_err)
qed

lemma slice_err: "slice xs idxs = Inl e \<Longrightarrow> e = Undefined"
  by (induction xs idxs rule: slice.induct) (auto split: if_splits sum.splits)

lemma groupByCheck_None:
  "groupByCheck fname groupByField (groupByTarget targets groupByField) targ = Inr ()"
  by (simp add: groupByCheck_def groupByTarget_def)

lemma getRawValues_err:
  "getRawValues frames fname g d0 dp0 i0 = Inl e \<Longrightarrow>
   e = BadValue ''No data was found.'' \<or> e = Undefined \<or> e = out_of_range \<or> e = length_error"
  unfolding getRawValues_def groupByCheck_None
  by (auto simp: Let_def vec_at_def split: if_splits sum.splits prod.splits
      dest: framesLoop_err copyLoop_err slice_err)

subsection \<open>The group-by check\<close>

text \<open>
  C4 (as amended). \<open>getRawValues\<close> never looks the group-by target up (the lookup is
  commented out in the source), so for every \<open>groupByField\<close> the call returns what it
  returns for the empty \<open>groupByField\<close>, and it never fails with the error of the
  dim-path comparison.
\<close>

theorem getRawValues_groupBy_ignored:
  "getRawValues frames fname groupByField data0 dimPaths0 info0 =
     getRawValues frames fname [] data0 dimPaths0 info0 \<and>
   getRawValues frames fname groupByField data0 dimPaths0 info0 \<noteq>
     Inl (BadValue (groupByMessage groupByField fname groupByPath targetPath))"
proof
  show "getRawValues frames fname groupByField data0 dimPaths0 info0 =
     getRawValues frames fname [] data0 dimPaths0 info0"
    unfolding getRawValues_def groupByCheck_None ..
  show "getRawValues frames fname groupByField data0 dimPaths0 info0 \<noteq>
     Inl (BadValue (groupByMessage groupByField fname groupByPath targetPath))"
    using getRawValues_err [of frames fname groupByField data0 dimPaths0 info0]
    by (auto simp: groupByMessage_def)
qed

text \<open>
  C4 as stated fails: the field \<open>lat\<close> has the dim path \<open>*/LOC\<close>, the field \<open>temp\<close>
  the dim path \<open>*/OBS\<close>, the two differ at index 1, and the call with the group-by
  field \<open>lat\<close> returns the values of \<open>temp\<close>.
\<close>

theorem getRawValues_groupBy_counterexample:
  "''lat'' \<noteq> [] \<and>
   tname (getTargets (exFrame kelvin [2] [1, 2]) ! 1) = ''lat'' \<and>
   splitPath (last (dimPaths (getTargets (exFrame kelvin [2] [1, 2]) ! 1))) = [''*'', ''LOC''] \<and>
   splitPath (last (dimPaths (getTargets (exFrame kelvin [2] [1, 2]) ! 0))) = [''*'', ''OBS''] \<and>
   getRawValues [exFrame kelvin [2] [1, 2]] ''temp'' ''lat'' [] [] exInfo =
     Inr \<lparr> rvData = [1, 2], rvDims = [1, 2], rvDimPaths = [''*'', ''*/OBS''],
           rvInfo = kelvin \<rparr>"
  by (simp add: ev splitPath_def str_find_def substr_def substr_from_def)

subsection \<open>The override type\<close>

text \<open>
  C10. With a non-empty \<open>overrideType\<close> that \<open>objectByType\<close> does not know,
  \<open>get\<close> returns an error: the one of \<open>getRawValues\<close> if that fails, else the
  unknown-type error, raised before the check that numbers and strings are not
  converted into each other. With the empty \<open>overrideType\<close> that check is not made:
  the element type is \<open>objectByTypeInfo\<close> of the merged type information. In both
  cases the error of the conversion check is not what \<open>get\<close> returns.
\<close>

theorem get_overrideType:
  "(overrideType \<noteq> [] \<and> overrideType \<notin> set knownTypes \<longrightarrow>
      get m d frames fname g overrideType =
        (case getRawValues frames fname g [] [] d of
           Inl e \<Rightarrow> Inl e
         | Inr rv \<Rightarrow> Inl (unknownType overrideType))) \<and>
   (overrideType = [] \<longrightarrow>
      get m d frames fname g overrideType =
        (case getRawValues frames fname g [] [] d of
           Inl e \<Rightarrow> Inl e
         | Inr rv \<Rightarrow>
             Inr \<lparr> elemType = objectByTypeInfo m (rvInfo rv), objData = rvData rv,
                   objDims = rvDims rv, fieldName = fname, groupByFieldName = g,
                   objDimPaths = rvDimPaths rv \<rparr>)) \<and>
   ((overrideType \<noteq> [] \<and> overrideType \<notin> set knownTypes) \<or> overrideType = [] \<longrightarrow>
      get m d frames fname g overrideType \<noteq> Inl (incompatibleOverride fname))"
proof (intro conjI impI)
  assume a: "overrideType \<noteq> [] \<and> overrideType \<notin> set knownTypes"
  then have "objectByType overrideType = Inl (unknownType overrideType)"
    by (simp add: objectByType_def knownTypes_def)
  with a show "get m d frames fname g overrideType =
        (case getRawValues frames fname g [] [] d of
           Inl e \<Rightarrow> Inl e
         | Inr rv \<Rightarrow> Inl (unknownType overrideType))"
    by (simp add: get_def makeDataObject_def split: sum.splits)
next
  assume "overrideType = []"
  then show "get m d frames fname g overrideType =
        (case getRawValues frames fname g [] [] d of
           Inl e \<Rightarrow> Inl e
         | Inr rv \<Rightarrow>
             Inr \<lparr> elemType = objectByTypeInfo m (rvInfo rv), objData = rvData rv,
                   objDims = rvDims rv, fieldName = fname, groupByFieldName = g,
                   objDimPaths = rvDimPaths rv \<rparr>)"
    by (simp add: get_def makeDataObject_def split: sum.splits)
next
  assume a: "(overrideType \<noteq> [] \<and> overrideType \<notin> set knownTypes) \<or> overrideType = []"
  have ok: "makeDataObject m fname g i overrideType dat dims dps \<noteq> Inl (incompatibleOverride fname)"
    for i dat dims dps
    using a
    by (auto simp: makeDataObject_def objectByType_def knownTypes_def unknownType_def
        incompatibleOverride_def split: sum.splits)
  show "get m d frames fname g overrideType \<noteq> Inl (incompatibleOverride fname)"
    using ok getRawValues_err [of frames fname g "[]" "[]" d]
    by (auto simp: get_def incompatibleOverride_def split: sum.splits)
qed

theorem get_overrideType_witness:
  "''bogus'' \<noteq> [] \<and> ''bogus'' \<notin> set knownTypes \<and>
   getRawValues [exFrame ccitt [2] [1, 2]] ''temp'' [] [] [] exInfo =
     Inr \<lparr> rvData = [1, 2], rvDims = [1, 2], rvDimPaths = [''*'', ''*/OBS''], rvInfo = ccitt \<rparr> \<and>
   isString exMethods ccitt \<and>
   get exMethods exInfo [exFrame ccitt [2] [1, 2]] ''temp'' [] ''bogus'' =
     Inl (unknownType ''bogus'') \<and>
   get exMethods exInfo [exFrame ccitt [2] [1, 2]] ''temp'' [] ''bogus'' \<noteq>
     Inl (incompatibleOverride ''temp'') \<and>
   get exMethods exInfo [exFrame ccitt [2] [1, 2]] ''temp'' [] [] =
     Inr \<lparr> elemType = String, objData = [1, 2], objDims = [1, 2], fieldName = ''temp'',
           groupByFieldName = [], objDimPaths = [''*'', ''*/OBS''] \<rparr>"
proof -
  have rv: "getRawValues [exFrame ccitt [2] [1, 2]] ''temp'' [] [] [] exInfo =
     Inr \<lparr> rvData = [1, 2], rvDims = [1, 2], rvDimPaths = [''*'', ''*/OBS''], rvInfo = ccitt \<rparr>"
    by (simp add: ev ccitt_def)
  have a: "get exMethods exInfo [exFrame ccitt [2] [1, 2]] ''temp'' [] ''bogus'' =
             Inl (unknownType ''bogus'') \<and>
           get exMethods exInfo [exFrame ccitt [2] [1, 2]] ''temp'' [] ''bogus'' \<noteq>
             Inl (incompatibleOverride ''temp'')"
    using get_overrideType [of "''bogus''" exMethods exInfo "[exFrame ccitt [2] [1, 2]]"
        "''temp''" "[]"]
    by (simp add: rv knownTypes_def unknownType_def incompatibleOverride_def)
  have b: "get exMethods exInfo [exFrame ccitt [2] [1, 2]] ''temp'' [] [] =
     Inr \<lparr> elemType = objectByTypeInfo exMethods ccitt, objData = [1, 2], objDims = [1, 2],
           fieldName = ''temp'', groupByFieldName = [], objDimPaths = [''*'', ''*/OBS''] \<rparr>"
    using get_overrideType [of "[]" exMethods exInfo "[exFrame ccitt [2] [1, 2]]" "''temp''" "[]"]
    by (simp add: rv)
  have c: "objectByTypeInfo exMethods ccitt = String" "isString exMethods ccitt"
    by (simp_all add: objectByTypeInfo_def exMethods_def ccitt_def)
  have d: "unknownType ''bogus'' \<noteq> incompatibleOverride ''temp''"
    by (simp add: unknownType_def incompatibleOverride_def)
  show ?thesis
    using a b c d rv by (simp add: knownTypes_def)
qed


subsection \<open>The merged type information\<close>

lemma frameStep_info:
  "frameStep ti frame st = Inr st' \<Longrightarrow>
   info st' = mergeTypeInfo (info st) (typeInfo (getTargets frame ! ti))"
  by (auto simp: frameStep_def vec_at_def Let_def split: sum.splits if_splits prod.splits)

lemma framesLoop_info:
  "framesLoop ti frames st = Inr st' \<Longrightarrow>
   info st' = foldl mergeTypeInfo (info st) (frameTypeInfos ti frames)"
proof (induction frames arbitrary: st)
  case Nil
  then show ?case by (simp add: frameTypeInfos_def)
next
  case (Cons f fs)
  then obtain st1 where s1: "frameStep ti f st = Inr st1" and s2: "framesLoop ti fs st1 = Inr st'"
    by (auto split: sum.splits)
  show ?case
    using Cons.IH [OF s2] frameStep_info [OF s1] by (simp add: frameTypeInfos_def)
qed

lemma getRawValues_info:
  assumes "getRawValues frames fname g d0 dp0 info0 = Inr rv"
  shows "rvInfo rv = foldl mergeTypeInfo info0
           (frameTypeInfos (findTargetIdx (getTargets (hd frames)) fname) frames)"
  using assms unfolding getRawValues_def
  by (auto simp: Let_def split: if_splits sum.splits prod.splits dest!: framesLoop_info)

lemma mergeTypeInfo_sel:
  "reference (mergeTypeInfo a t) = min (reference a) (reference t)"
  "bits (mergeTypeInfo a t) = max (bits a) (bits t)"
  "unit (mergeTypeInfo a t) = (if unit a = [] then unit t else unit a)"
  "scale (mergeTypeInfo a t) = (if scale a < \<bar>scale t\<bar> then scale t else scale a)"
  by (simp_all add: mergeTypeInfo_def)

lemma merge_reference:
  "reference (foldl mergeTypeInfo a tis) = Min (set (reference a # map reference tis))"
proof (induction tis arbitrary: a)
  case Nil
  then show ?case by simp
next
  case (Cons t ts)
  have "reference (foldl mergeTypeInfo a (t # ts)) =
          Min (insert (min (reference a) (reference t)) (set (map reference ts)))"
    using Cons.IH [of "mergeTypeInfo a t"] by (simp add: mergeTypeInfo_sel)
  also have "\<dots> = Min (set (reference a # map reference (t # ts)))"
    by (cases "ts = []") (simp_all add: min.assoc)
  finally show ?case .
qed

lemma merge_bits:
  "bits (foldl mergeTypeInfo a tis) = Max (set (bits a # map bits tis))"
proof (induction tis arbitrary: a)
  case Nil
  then show ?case by simp
next
  case (Cons t ts)
  have "bits (foldl mergeTypeInfo a (t # ts)) =
          Max (insert (max (bits a) (bits t)) (set (map bits ts)))"
    using Cons.IH [of "mergeTypeInfo a t"] by (simp add: mergeTypeInfo_sel)
  also have "\<dots> = Max (set (bits a # map bits (t # ts)))"
    by (cases "ts = []") (simp_all add: max.assoc)
  finally show ?case .
qed

lemma merge_unit:
  "unit (foldl mergeTypeInfo a tis) = firstNonEmpty (unit a # map unit tis)"
proof (induction tis arbitrary: a)
  case Nil
  then show ?case by (simp add: firstNonEmpty_def)
next
  case (Cons t ts)
  show ?case
    using Cons.IH [of "mergeTypeInfo a t"]
    by (simp add: mergeTypeInfo_sel firstNonEmpty_def)
qed

lemma merge_scale:
  "0 \<le> scale a \<Longrightarrow> \<forall>t \<in> set tis. 0 \<le> scale t \<Longrightarrow>
   scale (foldl mergeTypeInfo a tis) = Max (set (scale a # map scale tis))"
proof (induction tis arbitrary: a)
  case Nil
  then show ?case by simp
next
  case (Cons t ts)
  have m: "scale (mergeTypeInfo a t) = max (scale a) (scale t)"
    using Cons.prems by (auto simp: mergeTypeInfo_sel)
  have "scale (foldl mergeTypeInfo a (t # ts)) =
          Max (insert (max (scale a) (scale t)) (set (map scale ts)))"
    using Cons.IH [of "mergeTypeInfo a t"] Cons.prems m by simp
  also have "\<dots> = Max (set (scale a # map scale (t # ts)))"
    by (cases "ts = []") (simp_all add: max.assoc)
  finally show ?case .
qed

lemma twoFrames:
  "getRawValues [exFrame a [2] [1, 2], exFrame b [2] [3, 4]] ''temp'' [] [] [] i0 =
     Inr \<lparr> rvData = [1, 2, 3, 4], rvDims = [2, 2], rvDimPaths = [''*'', ''*/OBS''],
           rvInfo = mergeTypeInfo (mergeTypeInfo i0 a) b \<rparr>"
  by (simp add: getRawValues_def exFrame_def exTarget_def exGroupBy_def
      findTargetIdx_def vec_at_def groupByCheck_def groupByTarget_def frameStep_def nodeId_def
      rowLengthOf_def product_def resize_def copyPlain_def liftZeroDims_def Let_def)

text \<open>
  C6 (as amended). When \<open>getRawValues\<close> returns, the merged \<open>info\<close> has as
  \<open>reference\<close> the minimum of the reference \<open>info\<close> had on entry and the targets'
  references, as \<open>bits\<close> the maximum of the bits it had on entry and the targets' bits,
  as \<open>unit\<close> the first non-empty unit among the one it had on entry and the targets'
  units in frame order, and, when neither the scale it had on entry nor a target's
  scale is negative, as \<open>scale\<close> the maximum of these scales.
\<close>

theorem getRawValues_typeInfo:
  assumes "getRawValues frames fname g data0 dimPaths0 info0 = Inr rv"
    and "tis = frameTypeInfos (findTargetIdx (getTargets (hd frames)) fname) frames"
  shows "reference (rvInfo rv) = Min (set (reference info0 # map reference tis)) \<and>
         bits (rvInfo rv) = Max (set (bits info0 # map bits tis)) \<and>
         unit (rvInfo rv) = firstNonEmpty (unit info0 # map unit tis) \<and>
         (0 \<le> scale info0 \<and> (\<forall>t \<in> set tis. 0 \<le> scale t) \<longrightarrow>
            scale (rvInfo rv) = Max (set (scale info0 # map scale tis)))"
  using getRawValues_info [OF assms(1)] assms(2)
  by (simp add: merge_reference merge_bits merge_unit merge_scale)

theorem getRawValues_typeInfo_witness:
  "getRawValues [exFrame unitless [2] [1, 2], exFrame celsius [2] [3, 4]] ''temp'' [] [] [] exInfo =
     Inr \<lparr> rvData = [1, 2, 3, 4], rvDims = [2, 2], rvDimPaths = [''*'', ''*/OBS''],
           rvInfo = \<lparr> scale = 2, reference = -10, bits = 16, unit = ''C'' \<rparr> \<rparr> \<and>
   frameTypeInfos (findTargetIdx (getTargets (exFrame unitless [2] [1, 2])) ''temp'')
     [exFrame unitless [2] [1, 2], exFrame celsius [2] [3, 4]] = [unitless, celsius] \<and>
   Min (set (reference exInfo # map reference [unitless, celsius])) = -10 \<and>
   Max (set (bits exInfo # map bits [unitless, celsius])) = 16 \<and>
   firstNonEmpty (unit exInfo # map unit [unitless, celsius]) = ''C'' \<and>
   0 \<le> scale exInfo \<and> 0 \<le> scale unitless \<and> 0 \<le> scale celsius \<and>
   Max (set (scale exInfo # map scale [unitless, celsius])) = 2"
proof -
  have rv: "getRawValues [exFrame unitless [2] [1, 2], exFrame celsius [2] [3, 4]] ''temp'' [] [] [] exInfo =
     Inr \<lparr> rvData = [1, 2, 3, 4], rvDims = [2, 2], rvDimPaths = [''*'', ''*/OBS''],
           rvInfo = \<lparr> scale = 2, reference = -10, bits = 16, unit = ''C'' \<rparr> \<rparr>"
    by (simp add: twoFrames mergeTypeInfo_def exInfo_def unitless_def celsius_def)
  have tis: "frameTypeInfos (findTargetIdx (getTargets (exFrame unitless [2] [1, 2])) ''temp'')
     [exFrame unitless [2] [1, 2], exFrame celsius [2] [3, 4]] = [unitless, celsius]"
    by (simp add: frameTypeInfos_def findTargetIdx_def exFrame_def exTarget_def)
  show ?thesis
    using getRawValues_typeInfo [OF rv, of "[unitless, celsius]"] rv tis
    by (simp add: exInfo_def unitless_def celsius_def firstNonEmpty_def)
qed

text \<open>
  C6 as stated fails. With \<open>info\<close> all zero on entry and two frames whose targets
  have the references 5 and 7 and the scales -3 and 1, the merged reference is 0, not
  the minimum 5 of the targets' references, and the merged scale is 1, not the scale
  -3 of largest absolute value.
\<close>

theorem getRawValues_typeInfo_counterexample:
  "getRawValues [exFrame coarse [2] [1, 2], exFrame fine [2] [3, 4]] ''temp'' [] [] [] exInfo =
     Inr \<lparr> rvData = [1, 2, 3, 4], rvDims = [2, 2], rvDimPaths = [''*'', ''*/OBS''],
           rvInfo = \<lparr> scale = 1, reference = 0, bits = 12, unit = ''K'' \<rparr> \<rparr> \<and>
   map reference [coarse, fine] = [5, 7] \<and> Min (set (map reference [coarse, fine])) = 5 \<and>
   map scale [coarse, fine] = [-3, 1] \<and> \<bar>1 :: int\<bar> < \<bar>-3\<bar>"
  by (simp add: twoFrames mergeTypeInfo_def exInfo_def coarse_def fine_def)


subsection \<open>A field without any occurrence\<close>

text \<open>
  C1, evaluated where it fails. Two frames in which the sequence \<open>OBS\<close> never occurs
  (its counts are \<open>[0]\<close> in the first frame and empty in the second) and \<open>TEMP\<close>
  has no value. The zero dimension is lifted to one in the copy \<open>allDims\<close> only, which
  nothing reads afterwards; \<open>dims\<close> keeps the zero, the row length is zero, and the
  call returns the shape \<open>[2, 0]\<close> with no element at all, where C1 promises the
  shape \<open>[2, 1]\<close> and two elements \<open>MissingValue\<close>.
\<close>

theorem getRawValues_zero_dims:
  "counts (entryAt (exFrame kelvin [0] []) 2) = [0] \<and>
   counts (entryAt (exFrame kelvin [] []) 2) = [] \<and>
   data (entryAt (exFrame kelvin [0] []) 4) = [] \<and>
   data (entryAt (exFrame kelvin [] []) 4) = [] \<and>
   liftZeroDims [1, 0] = [1, 1] \<and>
   getRawValues [exFrame kelvin [0] [], exFrame kelvin [] []] ''temp'' [] [] [] exInfo =
     Inr \<lparr> rvData = [], rvDims = [2, 0], rvDimPaths = [''*'', ''*/OBS''], rvInfo = kelvin \<rparr>"
  by (simp add: ev)

subsection \<open>Jaggedness\<close>

lemma examined_Cons:
  "examined frame (p # ps) =
     (if counts (entryAt frame (nodeId p)) = [] then []
      else counts (entryAt frame (nodeId p)) # examined frame ps)"
  by (simp add: examined_def)

lemma dimsLoop_length:
  "dimsLoop frame ps k (dl, jag) = Inr (dl', jag') \<Longrightarrow> length dl' = length dl"
  by (induction ps arbitrary: k dl jag) (auto simp: Let_def split: if_splits)

lemma dimsLoop_bound:
  "dimsLoop frame ps k (dl, jag) = Inr (dl', jag') \<Longrightarrow> examined frame ps \<noteq> [] \<Longrightarrow>
   k + length (examined frame ps) \<le> length dl"
proof (induction ps arbitrary: k dl jag)
  case Nil
  then show ?case by (simp add: examined_def)
next
  case (Cons p ps)
  let ?c = "counts (entryAt frame (nodeId p))"
  from Cons.prems(2) have c: "?c \<noteq> []"
    by (auto simp: examined_Cons split: if_splits)
  with Cons.prems(1) have k: "k < length dl"
    by (auto simp: Let_def split: if_splits)
  show ?case
  proof (cases "examined frame ps = []")
    case True
    with c k show ?thesis by (simp add: examined_Cons)
  next
    case False
    from Cons.prems(1) c k obtain dl1 jag1 where
      rec: "dimsLoop frame ps (k + 1) (dl1, jag1) = Inr (dl', jag')" and "length dl1 = length dl"
      by (auto simp: Let_def split: if_splits)
    with Cons.IH [OF rec False] c show ?thesis
      by (simp add: examined_Cons)
  qed
qed

lemma dimsLoop_dims:
  "dimsLoop frame ps k (dl, jag) = Inr (dl', jag') \<Longrightarrow> j < length dl \<Longrightarrow>
   dl' ! j = (if k \<le> j \<and> j < k + length (examined frame ps)
              then max (dl ! j) (max_vec (examined frame ps ! (j - k))) else dl ! j)"
proof (induction ps arbitrary: k dl jag)
  case Nil
  then show ?case by (simp add: examined_def)
next
  case (Cons p ps)
  let ?c = "counts (entryAt frame (nodeId p))"
  show ?case
  proof (cases "?c = []")
    case True
    with Cons.prems show ?thesis by (simp add: examined_Cons)
  next
    case False
    with Cons.prems(1) have k: "k < length dl"
      by (auto simp: Let_def split: if_splits)
    let ?dl1 = "dl[k := max (dl ! k) (max_vec ?c)]"
    from Cons.prems(1) False k obtain jag1 where
      rec: "dimsLoop frame ps (k + 1) (?dl1, jag1) = Inr (dl', jag')"
      by (auto simp: Let_def split: if_splits)
    have j1: "j < length ?dl1" using Cons.prems(2) by simp
    note ih = Cons.IH [OF rec j1]
    show ?thesis
    proof (cases "j = k")
      case True
      with ih k False show ?thesis by (simp add: examined_Cons)
    next
      case ne: False
      show ?thesis
      proof (cases "k < j")
        case True
        then have "j - k = Suc (j - (k + 1))" by simp
        with ih True False show ?thesis by (simp add: examined_Cons)
      next
        case False
        with ne ih show ?thesis by simp
      qed
    qed
  qed
qed

lemma max_neq_iff: "(a :: int) \<noteq> max a b \<longleftrightarrow> a < b"
  by auto


lemma dimsLoop_jagged:
  "dimsLoop frame ps k (dl, jag) = Inr (dl', jag') \<Longrightarrow>
   jag' \<longleftrightarrow> jag \<or> (\<exists>j < length (examined frame ps).
      \<not> allEqual (examined frame ps ! j) \<or>
      (dl ! (k + j) \<noteq> 0 \<and> dl ! (k + j) < max_vec (examined frame ps ! j)))"
proof (induction ps arbitrary: k dl jag)
  case Nil
  then show ?case by (simp add: examined_def)
next
  case (Cons p ps)
  let ?c = "counts (entryAt frame (nodeId p))"
  let ?cs = "examined frame ps"
  show ?case
  proof (cases "?c = []")
    case True
    with Cons.prems show ?thesis by (simp add: examined_Cons)
  next
    case False
    with Cons.prems(1) have k: "k < length dl"
      by (auto simp: Let_def split: if_splits)
    let ?dl1 = "dl[k := max (dl ! k) (max_vec ?c)]"
    let ?J = "jag \<or> \<not> allEqual ?c \<or> (dl ! k \<noteq> 0 \<and> dl ! k < max_vec ?c)"
    have "dimsLoop frame (p # ps) k (dl, jag) = dimsLoop frame ps (k + 1) (?dl1, ?J)"
      using False k by (auto simp: Let_def max_neq_iff)
    with Cons.prems(1) have rec: "dimsLoop frame ps (k + 1) (?dl1, ?J) = Inr (dl', jag')"
      by simp
    have ih: "jag' \<longleftrightarrow> ?J \<or> (\<exists>j < length ?cs.
        \<not> allEqual (?cs ! j) \<or>
        (?dl1 ! (k + 1 + j) \<noteq> 0 \<and> ?dl1 ! (k + 1 + j) < max_vec (?cs ! j)))"
      by (rule Cons.IH [OF rec])
    have shift: "?dl1 ! (k + 1 + j) = dl ! (k + Suc j)" for j
      by simp
    have ih': "jag' \<longleftrightarrow> ?J \<or> (\<exists>j < length ?cs.
        \<not> allEqual (?cs ! j) \<or>
        (dl ! (k + Suc j) \<noteq> 0 \<and> dl ! (k + Suc j) < max_vec (?cs ! j)))"
      using ih unfolding shift .
    have ex: "(\<exists>j < Suc n. P j) \<longleftrightarrow> P 0 \<or> (\<exists>j < n. P (Suc j))" for n and P :: "nat \<Rightarrow> bool"
      by (metis less_Suc_eq_0_disj)
    have cs: "examined frame (p # ps) = ?c # ?cs"
      using False by (simp add: examined_Cons)
    have "(\<exists>j < length (?c # ?cs). \<not> allEqual ((?c # ?cs) ! j) \<or>
            (dl ! (k + j) \<noteq> 0 \<and> dl ! (k + j) < max_vec ((?c # ?cs) ! j))) \<longleftrightarrow>
          (\<not> allEqual ?c \<or> (dl ! k \<noteq> 0 \<and> dl ! k < max_vec ?c)) \<or>
          (\<exists>j < length ?cs. \<not> allEqual (?cs ! j) \<or>
            (dl ! (k + Suc j) \<noteq> 0 \<and> dl ! (k + Suc j) < max_vec (?cs ! j)))"
      by (simp add: ex)
    with ih' show ?thesis
      unfolding cs by blast
  qed
qed


lemma frameStep_dimsLoop:
  "frameStep ti f st = Inr st' \<Longrightarrow>
   dimsLoop f (butlast (tpath (getTargets f ! ti))) 0 (dimsList st, jagged st) =
     Inr (dimsList st', jagged st')"
  by (auto simp: frameStep_def vec_at_def Let_def split: sum.splits if_splits prod.splits)

lemma frameStep_length:
  "frameStep ti f st = Inr st' \<Longrightarrow> length (dimsList st') = length (dimsList st)"
  using dimsLoop_length [OF frameStep_dimsLoop] .

lemma frameStep_bound:
  "frameStep ti f st = Inr st' \<Longrightarrow> length (examinedCounts ti f) \<le> length (dimsList st)"
  using dimsLoop_bound [OF frameStep_dimsLoop, of ti f st st']
  by (cases "examinedCounts ti f = []") (simp_all add: examinedCounts_def)

lemma frameStep_dims:
  "frameStep ti f st = Inr st' \<Longrightarrow> k < length (dimsList st) \<Longrightarrow>
   dimsList st' ! k = maxStep ti k f (dimsList st ! k)"
  using dimsLoop_dims [OF frameStep_dimsLoop, of ti f st st' k]
  by (simp add: maxStep_def examinedCounts_def)

lemma frameStep_jagged:
  "frameStep ti f st = Inr st' \<Longrightarrow>
   jagged st' \<longleftrightarrow> jagged st \<or> (\<exists>k < length (examinedCounts ti f).
      \<not> allEqual (examinedCounts ti f ! k) \<or>
      (dimsList st ! k \<noteq> 0 \<and> dimsList st ! k < max_vec (examinedCounts ti f ! k)))"
  using dimsLoop_jagged [OF frameStep_dimsLoop, of ti f st st']
  by (simp add: examinedCounts_def)

lemma framesLoop_length:
  "framesLoop ti frames st = Inr st' \<Longrightarrow> length (dimsList st') = length (dimsList st)"
proof (induction frames arbitrary: st)
  case Nil
  then show ?case by simp
next
  case (Cons f fs)
  then obtain st1 where s1: "frameStep ti f st = Inr st1" and s2: "framesLoop ti fs st1 = Inr st'"
    by (auto split: sum.splits)
  show ?case
    using Cons.IH [OF s2] frameStep_length [OF s1] by simp
qed

lemma framesLoop_bound:
  "framesLoop ti frames st = Inr st' \<Longrightarrow> i < length frames \<Longrightarrow>
   length (examinedCounts ti (frames ! i)) \<le> length (dimsList st)"
proof (induction frames arbitrary: st i)
  case Nil
  then show ?case by simp
next
  case (Cons f fs)
  then obtain st1 where s1: "frameStep ti f st = Inr st1" and s2: "framesLoop ti fs st1 = Inr st'"
    by (auto split: sum.splits)
  show ?case
  proof (cases i)
    case 0
    then show ?thesis using frameStep_bound [OF s1] by simp
  next
    case (Suc i')
    then have "i' < length fs" using Cons.prems(2) by simp
    from Cons.IH [OF s2 this] frameStep_length [OF s1] Suc show ?thesis by simp
  qed
qed

lemma framesLoop_dims:
  "framesLoop ti frames st = Inr st' \<Longrightarrow> k < length (dimsList st) \<Longrightarrow>
   dimsList st' ! k = runningMaxFrom ti frames k (dimsList st ! k)"
proof (induction frames arbitrary: st)
  case Nil
  then show ?case by (simp add: runningMaxFrom_def)
next
  case (Cons f fs)
  then obtain st1 where s1: "frameStep ti f st = Inr st1" and s2: "framesLoop ti fs st1 = Inr st'"
    by (auto split: sum.splits)
  have k1: "k < length (dimsList st1)"
    using Cons.prems(2) frameStep_length [OF s1] by simp
  show ?case
    using Cons.IH [OF s2 k1] frameStep_dims [OF s1 Cons.prems(2)]
    by (simp add: runningMaxFrom_def)
qed

lemma ex_less_Suc:
  "(\<exists>j < Suc n. P j) \<longleftrightarrow> P 0 \<or> (\<exists>j < n. P (Suc j))"
  by (metis less_Suc_eq_0_disj)

lemma framesLoop_jagged:
  "framesLoop ti frames st = Inr st' \<Longrightarrow>
   jagged st' \<longleftrightarrow> jagged st \<or>
     (\<exists>i < length frames. \<exists>k < length (examinedCounts ti (frames ! i)).
        \<not> allEqual (examinedCounts ti (frames ! i) ! k) \<or>
        (runningMaxFrom ti (take i frames) k (dimsList st ! k) \<noteq> 0 \<and>
         runningMaxFrom ti (take i frames) k (dimsList st ! k)
           < max_vec (examinedCounts ti (frames ! i) ! k)))"
proof (induction frames arbitrary: st)
  case Nil
  then show ?case by simp
next
  case (Cons f fs)
  then obtain st1 where s1: "frameStep ti f st = Inr st1" and s2: "framesLoop ti fs st1 = Inr st'"
    by (auto split: sum.splits)
  let ?E = "\<lambda>g. examinedCounts ti g"
  let ?Q = "\<lambda>g m k. \<not> allEqual (?E g ! k) \<or> (m \<noteq> 0 \<and> m < max_vec (?E g ! k))"
  have ih: "jagged st' \<longleftrightarrow> jagged st1 \<or>
     (\<exists>i < length fs. \<exists>k < length (?E (fs ! i)).
        ?Q (fs ! i) (runningMaxFrom ti (take i fs) k (dimsList st1 ! k)) k)"
    by (rule Cons.IH [OF s2])
  have run: "runningMaxFrom ti (take i fs) k (dimsList st1 ! k) =
             runningMaxFrom ti (take (Suc i) (f # fs)) k (dimsList st ! k)"
    if "i < length fs" "k < length (?E (fs ! i))" for i k
  proof -
    have "k < length (dimsList st1)"
      using framesLoop_bound [OF s2 that(1)] that(2) by simp
    then have "k < length (dimsList st)"
      using frameStep_length [OF s1] by simp
    from frameStep_dims [OF s1 this] show ?thesis
      by (simp add: runningMaxFrom_def)
  qed
  have tail: "(\<exists>i < length fs. \<exists>k < length (?E (fs ! i)).
        ?Q (fs ! i) (runningMaxFrom ti (take i fs) k (dimsList st1 ! k)) k) \<longleftrightarrow>
     (\<exists>i < length fs. \<exists>k < length (?E ((f # fs) ! Suc i)).
        ?Q ((f # fs) ! Suc i)
           (runningMaxFrom ti (take (Suc i) (f # fs)) k (dimsList st ! k)) k)"
    using run by (simp del: take_Suc_Cons) metis
  have head: "jagged st1 \<longleftrightarrow> jagged st \<or>
     (\<exists>k < length (?E ((f # fs) ! 0)).
        ?Q ((f # fs) ! 0) (runningMaxFrom ti (take 0 (f # fs)) k (dimsList st ! k)) k)"
    using frameStep_jagged [OF s1] by (simp add: runningMaxFrom_def)
  show ?case
    unfolding length_Cons ex_less_Suc
    using ih head tail by blast
qed


text \<open>
  What the loop over the frames computes, started with all dimensions zero and
  \<open>jagged\<close> false: \<open>jagged\<close> ends true exactly when, for some frame and some
  dimension examined in it, the counts vector is non-uniform, or the running maximum is
  not zero and is smaller than the frame's maximum count. Line 135 compares the running
  maximum with \<open>newDimVal\<close>, which has already absorbed the frame's maximum, so a frame
  whose maximum is smaller than the running maximum goes unnoticed.
\<close>

lemma framesLoop_jagged_computed:
  assumes "framesLoop targetIdx frames st0 = Inr st"
    and "dimsList st0 = replicate n 0"
    and "\<not> jagged st0"
  shows "jagged st \<longleftrightarrow>
     (\<exists>i < length frames. \<exists>k < length (examinedCounts targetIdx (frames ! i)).
        \<not> allEqual (examinedCounts targetIdx (frames ! i) ! k) \<or>
        (runningMax targetIdx (take i frames) k \<noteq> 0 \<and>
         runningMax targetIdx (take i frames) k
           < max_vec (examinedCounts targetIdx (frames ! i) ! k)))"
proof -
  have zero: "dimsList st0 ! k = 0"
    if "i < length frames" "k < length (examinedCounts targetIdx (frames ! i))" for i k
  proof -
    have "k < length (dimsList st0)"
      using framesLoop_bound [OF assms(1) that(1)] that(2) by simp
    then show ?thesis using assms(2) by simp
  qed
  have "jagged st \<longleftrightarrow>
     (\<exists>i < length frames. \<exists>k < length (examinedCounts targetIdx (frames ! i)).
        \<not> allEqual (examinedCounts targetIdx (frames ! i) ! k) \<or>
        (runningMaxFrom targetIdx (take i frames) k (dimsList st0 ! k) \<noteq> 0 \<and>
         runningMaxFrom targetIdx (take i frames) k (dimsList st0 ! k)
           < max_vec (examinedCounts targetIdx (frames ! i) ! k)))"
    using framesLoop_jagged [OF assms(1)] assms(3) by simp
  then show ?thesis
    using zero unfolding runningMax_def by (metis (no_types, lifting))
qed

text \<open>
  The part of this that is by design, with the frame of a smaller maximum left out: a
  non-uniform counts vector, or a frame maximum above a running maximum that is not
  zero, sets the flag; and the flag stays false when every examined counts vector is
  uniform and, wherever the running maximum is not zero, has that maximum.
\<close>

lemma framesLoop_jagged_design:
  assumes "framesLoop targetIdx frames st0 = Inr st"
    and "dimsList st0 = replicate n 0"
    and "\<not> jagged st0"
  shows "((\<exists>i < length frames. \<exists>k < length (examinedCounts targetIdx (frames ! i)).
            \<not> allEqual (examinedCounts targetIdx (frames ! i) ! k) \<or>
            (runningMax targetIdx (take i frames) k \<noteq> 0 \<and>
             runningMax targetIdx (take i frames) k
               < max_vec (examinedCounts targetIdx (frames ! i) ! k)))
          \<longrightarrow> jagged st) \<and>
         ((\<forall>i < length frames. \<forall>k < length (examinedCounts targetIdx (frames ! i)).
            allEqual (examinedCounts targetIdx (frames ! i) ! k) \<and>
            (runningMax targetIdx (take i frames) k = 0 \<or>
             max_vec (examinedCounts targetIdx (frames ! i) ! k) =
               runningMax targetIdx (take i frames) k))
          \<longrightarrow> \<not> jagged st)"
  unfolding framesLoop_jagged_computed [OF assms] by fastforce

lemmas nest_defs = exInfo_def kelvin_def nestFrame_def nestTarget_def nestInit_def
  findTargetIdx_def vec_at_def groupByCheck_def groupByTarget_def frameStep_def nodeId_def
  mergeTypeInfo_def rowLengthOf_def product_def resize_def copyPlain_def MissingValue_def
  liftZeroDims_def Let_def

lemma rep_eval:
  "replicate 2 x = [x, x]"
  "replicate 8 x = [x, x, x, x, x, x, x, x]"
  by (simp_all add: eval_nat_numeral)

lemma nest_examined: "examinedCounts 0 (nestFrame outer [a, b] vs) =
    (if outer = [] then [[1]] else [[1], outer, [a, b]])"
  by (simp add: examinedCounts_def examined_def nestFrame_def nestTarget_def nodeId_def)

lemma idx2: "[0..<2] = [0, 1]" "[0..<3] = [0, 1, 2]" "[0..<4] = [0, 1, 2, 3]"
  by code_simp+

text \<open>
  C3, evaluated where it fails. Two frames of the field under two nested replications.
  In the first \<open>LEVEL\<close> occurs twice and \<open>WIND\<close> twice in each, with the values 1 to
  4; in the second \<open>LEVEL\<close> occurs twice and \<open>WIND\<close> once in each, with the values
  5 and 6. Every counts vector is uniform, and the second frame's maximum 1 of
  \<open>WIND\<close> differs from the running maximum 2, so by C3 \<open>jagged\<close> is true. The loop
  leaves it false, and the plain copy puts the value 6 where the second \<open>WIND\<close> of the
  first \<open>LEVEL\<close> belongs. The same two frames in the other order set the flag, and
  the second frame's values are padded apart.
\<close>

theorem getRawValues_smaller_frame:
  "framesLoop 0 [nestFrame [2] [2, 2] [1, 2, 3, 4], nestFrame [2] [1, 1] [5, 6]] nestInit =
     Inr \<lparr> dimsList = [1, 2, 2], jagged = False, info = kelvin,
           dimPathsOut = [''*'', ''*/LEVEL'', ''*/LEVEL/WIND''], exportDims = [0, 1, 2],
           target = nestTarget \<rparr> \<and>
   allEqual [2, 2] \<and> allEqual [1, 1] \<and>
   runningMax 0 [nestFrame [2] [2, 2] [1, 2, 3, 4]] 2 = 2 \<and>
   max_vec (examinedCounts 0 (nestFrame [2] [1, 1] [5, 6]) ! 2) = 1 \<and>
   getRawValues [nestFrame [2] [2, 2] [1, 2, 3, 4], nestFrame [2] [1, 1] [5, 6]]
       ''speed'' [] [] [] exInfo =
     Inr \<lparr> rvData = [1, 2, 3, 4, 5, 6, MissingValue, MissingValue], rvDims = [2, 2, 2],
           rvDimPaths = [''*'', ''*/LEVEL'', ''*/LEVEL/WIND''], rvInfo = kelvin \<rparr> \<and>
   framesLoop 0 [nestFrame [2] [1, 1] [5, 6], nestFrame [2] [2, 2] [1, 2, 3, 4]] nestInit =
     Inr \<lparr> dimsList = [1, 2, 2], jagged = True, info = kelvin,
           dimPathsOut = [''*'', ''*/LEVEL'', ''*/LEVEL/WIND''], exportDims = [0, 1, 2],
           target = nestTarget \<rparr> \<and>
   getRawValues [nestFrame [2] [1, 1] [5, 6], nestFrame [2] [2, 2] [1, 2, 3, 4]]
       ''speed'' [] [] [] exInfo =
     Inr \<lparr> rvData = [5, MissingValue, 6, MissingValue, 1, 2, 3, 4], rvDims = [2, 2, 2],
           rvDimPaths = [''*'', ''*/LEVEL'', ''*/LEVEL/WIND''], rvInfo = kelvin \<rparr>"
proof -
  have m: "runningMax 0 [nestFrame [2] [2, 2] [1, 2, 3, 4]] 2 = 2"
    "max_vec (examinedCounts 0 (nestFrame [2] [1, 1] [5, 6]) ! 2) = 1"
    by (simp_all add: nest_examined runningMax_def runningMaxFrom_def maxStep_def)
  have r: "framesLoop 0 [nestFrame [2] [2, 2] [1, 2, 3, 4], nestFrame [2] [1, 1] [5, 6]] nestInit =
     Inr \<lparr> dimsList = [1, 2, 2], jagged = False, info = kelvin,
           dimPathsOut = [''*'', ''*/LEVEL'', ''*/LEVEL/WIND''], exportDims = [0, 1, 2],
           target = nestTarget \<rparr>"
    "getRawValues [nestFrame [2] [2, 2] [1, 2, 3, 4], nestFrame [2] [1, 1] [5, 6]]
       ''speed'' [] [] [] exInfo =
     Inr \<lparr> rvData = [1, 2, 3, 4, 5, 6, MissingValue, MissingValue], rvDims = [2, 2, 2],
           rvDimPaths = [''*'', ''*/LEVEL'', ''*/LEVEL/WIND''], rvInfo = kelvin \<rparr>"
    by (simp_all add: getRawValues_def nest_defs rep_eval)
  have o: "framesLoop 0 [nestFrame [2] [1, 1] [5, 6], nestFrame [2] [2, 2] [1, 2, 3, 4]] nestInit =
     Inr \<lparr> dimsList = [1, 2, 2], jagged = True, info = kelvin,
           dimPathsOut = [''*'', ''*/LEVEL'', ''*/LEVEL/WIND''], exportDims = [0, 1, 2],
           target = nestTarget \<rparr>"
    "getRawValues [nestFrame [2] [1, 1] [5, 6], nestFrame [2] [2, 2] [1, 2, 3, 4]]
       ''speed'' [] [] [] exInfo =
     Inr \<lparr> rvData = [5, MissingValue, 6, MissingValue, 1, 2, 3, 4], rvDims = [2, 2, 2],
           rvDimPaths = [''*'', ''*/LEVEL'', ''*/LEVEL/WIND''], rvInfo = kelvin \<rparr>"
    by (simp_all add: getRawValues_def nest_defs copyJagged_def computeInserts_def
        insertCounts_def to_size_t_def to_int_def idx2 rep_eval)
  show ?thesis
    using m r o by simp
qed


subsection \<open>An absent delayed binary\<close>

lemma cursors: "[1..<Suc 8] = [1, 2, 3, 4, 5, 6, 7, 8]"
  by code_simp

lemmas collect_defs = collectStep_def beforeOpen_def captureValue_def countSequence_def
  exitSequences_def openSequence_def pushSequence_def pushValue_def pushCount_def
  addToLastCount_def mask_at_def inTable_def isQueryNode_def initialState_def Let_def

lemma exRun7:
  "collectLoop exStray exProvider exMasks [1, 2, 3, 4, 5, 6, 7] initialState = Inr exState7"
  by (simp add: collect_defs exProvider_def exMasks_def exStray_def exState7_def fun_eq_iff)

lemma openSequence_absent:
  assumes "mask_at stray (pathNodeMask masks) (getInv dp c)"
    and "getTyp dp (getInv dp c) = DelayedBinary"
    and "getVal dp c = 0"
  shows "openSequence stray dp masks c s = pushCount dp (getInv dp c + 1) 0 s"
  using assms by (simp add: openSequence_def isQueryNode_def)

text \<open>
  C2 (as amended). At a data cursor whose node \<open>n\<close> is a path node of type
  \<open>DelayedBinary\<close> carrying the value 0, the last part of the step (lines 504--533)
  pushes nothing onto \<open>currentPath\<close> or \<open>currentPathReturns\<close>, leaves
  \<open>returnNodeIdx\<close>, \<open>lastNonZeroReturnIdx\<close> and the values of every node as the
  first parts of the step left them, and appends the occurrence count 0 to the counts
  of node \<open>n + 1\<close>, leaving the counts of the other nodes alone.
\<close>

theorem collectStep_absent_binary:
  assumes "mask_at stray (pathNodeMask masks) (getInv dp c)"
    and "getTyp dp (getInv dp c) = DelayedBinary"
    and "getVal dp c = 0"
    and "collectStep stray dp masks c s = Inr s'"
  shows "\<exists>s3. beforeOpen stray dp masks c s = Inr s3 \<and>
           currentPath s' = currentPath s3 \<and>
           currentPathReturns s' = currentPathReturns s3 \<and>
           returnNodeIdx s' = returnNodeIdx s3 \<and>
           lastNonZeroReturnIdx s' = lastNonZeroReturnIdx s3 \<and>
           (\<forall>n. nvalues (dataTable s' n) = nvalues (dataTable s3 n)) \<and>
           (\<forall>n. n \<noteq> getInv dp c + 1 \<longrightarrow> ncounts (dataTable s' n) = ncounts (dataTable s3 n)) \<and>
           ncounts (dataTable s' (getInv dp c + 1)) =
             ncounts (dataTable s3 (getInv dp c + 1)) @ [0]"
proof -
  from assms(4) obtain s3 where b: "beforeOpen stray dp masks c s = Inr s3"
    and o: "openSequence stray dp masks c s3 = Inr s'"
    by (auto simp: collectStep_def split: sum.splits)
  from o have "pushCount dp (getInv dp c + 1) 0 s3 = Inr s'"
    using openSequence_absent [OF assms(1-3)] by simp
  then have "s' = s3\<lparr> dataTable := (dataTable s3)
       (getInv dp c + 1 := (dataTable s3 (getInv dp c + 1))
          \<lparr> ncounts := ncounts (dataTable s3 (getInv dp c + 1)) @ [0] \<rparr>) \<rparr>"
    by (auto simp: pushCount_def split: if_splits)
  then show ?thesis
    using b by simp
qed

theorem collectStep_absent_binary_witness:
  "mask_at exStray (pathNodeMask exMasks) (getInv exProvider 8) \<and>
   getTyp exProvider (getInv exProvider 8) = DelayedBinary \<and>
   getVal exProvider 8 = 0 \<and>
   collectLoop exStray exProvider exMasks [1, 2, 3, 4, 5, 6, 7] initialState = Inr exState7 \<and>
   (\<exists>s'. collectStep exStray exProvider exMasks 8 exState7 = Inr s' \<and>
      (\<exists>s3. beforeOpen exStray exProvider exMasks 8 exState7 = Inr s3 \<and>
         currentPath s3 = [] \<and> currentPath s' = [] \<and>
         currentPathReturns s' = currentPathReturns s3 \<and>
         ncounts (dataTable s3 6) = [] \<and>
         ncounts (dataTable s' 6) = [0]))"
proof -
  have h: "mask_at exStray (pathNodeMask exMasks) (getInv exProvider 8)"
    "getTyp exProvider (getInv exProvider 8) = DelayedBinary"
    "getVal exProvider 8 = 0"
    by (simp_all add: mask_at_def exMasks_def exProvider_def)
  have n: "getInv exProvider 8 + 1 = 6"
    by (simp add: exProvider_def)
  obtain s' where s': "collectStep exStray exProvider exMasks 8 exState7 = Inr s'"
    by (simp add: collect_defs exProvider_def exMasks_def exStray_def exState7_def)
  have b: "\<exists>s3. beforeOpen exStray exProvider exMasks 8 exState7 = Inr s3 \<and>
             currentPath s3 = [] \<and> ncounts (dataTable s3 6) = []"
    by (simp add: collect_defs exProvider_def exMasks_def exStray_def exState7_def)
  show ?thesis
    using collectStep_absent_binary [OF h s'] h s' b exRun7 unfolding n
    by auto
qed

text \<open>
  C2 as stated fails in its last part: at the eighth data cursor of the concrete subset
  the delayed binary 5 carries 0, the counts of node 6 are empty before the step and
  \<open>[0]\<close> after it.
\<close>

theorem collectStep_absent_binary_counterexample:
  "collectLoop exStray exProvider exMasks [1, 2, 3, 4, 5, 6, 7] initialState = Inr exState7 \<and>
   getInv exProvider 8 = 5 \<and>
   mask_at exStray (pathNodeMask exMasks) 5 \<and>
   getTyp exProvider 5 = DelayedBinary \<and>
   getVal exProvider 8 = 0 \<and>
   ncounts (dataTable exState7 (5 + 1)) = [] \<and>
   (case collectStep exStray exProvider exMasks 8 exState7 of
      Inl e \<Rightarrow> []
    | Inr s' \<Rightarrow> ncounts (dataTable s' (5 + 1))) = [0]"
proof -
  have "(case collectStep exStray exProvider exMasks 8 exState7 of
      Inl e \<Rightarrow> []
    | Inr s' \<Rightarrow> ncounts (dataTable s' (5 + 1))) = [0]"
    by (simp add: collect_defs exProvider_def exMasks_def exStray_def exState7_def)
  moreover have "getInv exProvider 8 = 5 \<and>
   mask_at exStray (pathNodeMask exMasks) 5 \<and>
   getTyp exProvider 5 = DelayedBinary \<and>
   getVal exProvider 8 = 0 \<and>
   ncounts (dataTable exState7 (5 + 1)) = []"
    by (simp add: mask_at_def exMasks_def exProvider_def exState7_def)
  ultimately show ?thesis
    using exRun7 by simp
qed

subsection \<open>The fields of a frame\<close>

lemma seqCountsOf_map:
  "seqCountsOf dp tbl ns = Inr cs \<Longrightarrow> cs = map (\<lambda>n. ncounts (tbl (n + 1))) ns"
  by (induction ns arbitrary: cs) (auto split: if_splits sum.splits)

lemma fieldOf_char:
  assumes "fieldOf dp tbl targ = Inr f"
  shows "fieldTarget f = targ \<and>
     (if nodeIdx targ = 0
      then fieldData f = [MissingValue] \<and> seqCounts f = [[1]]
      else seqCounts f = [1] # map (\<lambda>n. ncounts (tbl (n + 1))) (seqPath targ) \<and>
           fieldData f = nvalues (tbl (nodeIdx targ)))"
  using assms
  by (auto simp: fieldOf_def split: if_splits sum.splits dest: seqCountsOf_map)

lemma fieldsOf_char:
  "fieldsOf dp tbl targets = Inr fs \<Longrightarrow>
   length fs = length targets \<and> (\<forall>i < length targets. fieldOf dp tbl (targets ! i) = Inr (fs ! i))"
proof (induction targets arbitrary: fs)
  case Nil
  then show ?case by simp
next
  case (Cons t ts)
  then obtain f fs' where f: "fieldOf dp tbl t = Inr f" and fs': "fieldsOf dp tbl ts = Inr fs'"
    and eq: "fs = f # fs'"
    by (auto split: sum.splits)
  show ?case
    using Cons.IH [OF fs'] f eq by (auto simp: nth_Cons split: nat.splits)
qed

text \<open>
  C7. When \<open>collectData\<close> returns, \<open>tbl\<close> being the table of node data its loop
  has built, there is one field per target, in order; the field of a resolved target
  has \<open>length (seqPath) + 1\<close> count vectors, the first is \<open>[1]\<close>, the one at
  \<open>k + 1\<close> is the counts accrued on node \<open>seqPath ! k + 1\<close>, and its data are the
  values of node \<open>nodeIdx\<close>; the field of an unresolved target (\<open>nodeIdx = 0\<close>) has
  the data \<open>[MissingValue]\<close> and the counts \<open>[[1]]\<close>.
\<close>

theorem collectData_seqCounts:
  assumes "collectTable stray dp masks = Inr tbl"
    and "collectData stray dp targets masks = Inr flds"
  shows "length flds = length targets \<and>
     (\<forall>i < length targets.
        fieldTarget (flds ! i) = targets ! i \<and>
        (if nodeIdx (targets ! i) = 0
         then fieldData (flds ! i) = [MissingValue] \<and> seqCounts (flds ! i) = [[1]]
         else length (seqCounts (flds ! i)) = length (seqPath (targets ! i)) + 1 \<and>
              seqCounts (flds ! i) ! 0 = [1] \<and>
              (\<forall>k < length (seqPath (targets ! i)).
                 seqCounts (flds ! i) ! (k + 1) =
                   ncounts (tbl (seqPath (targets ! i) ! k + 1))) \<and>
              fieldData (flds ! i) = nvalues (tbl (nodeIdx (targets ! i)))))"
proof -
  from assms have fs: "fieldsOf dp tbl targets = Inr flds"
    by (simp add: collectData_def)
  note c = fieldsOf_char [OF fs]
  show ?thesis
  proof (intro conjI allI impI)
    show "length flds = length targets" using c by simp
  next
    fix i assume i: "i < length targets"
    with c have f: "fieldOf dp tbl (targets ! i) = Inr (flds ! i)" by simp
    from fieldOf_char [OF f] show "fieldTarget (flds ! i) = targets ! i" by simp
    from fieldOf_char [OF f]
    show "if nodeIdx (targets ! i) = 0
         then fieldData (flds ! i) = [MissingValue] \<and> seqCounts (flds ! i) = [[1]]
         else length (seqCounts (flds ! i)) = length (seqPath (targets ! i)) + 1 \<and>
              seqCounts (flds ! i) ! 0 = [1] \<and>
              (\<forall>k < length (seqPath (targets ! i)).
                 seqCounts (flds ! i) ! (k + 1) =
                   ncounts (tbl (seqPath (targets ! i) ! k + 1))) \<and>
              fieldData (flds ! i) = nvalues (tbl (nodeIdx (targets ! i)))"
      by (simp split: if_splits)
  qed
qed

lemma exTable:
  "\<exists>tbl. collectTable exStray exProvider exMasks = Inr tbl \<and>
     ncounts (tbl 3) = [2] \<and> nvalues (tbl 4) = [273, 274] \<and>
     ncounts (tbl 6) = [0] \<and> nvalues (tbl 7) = []"
proof -
  have n: "getNVal exProvider = 8" by (simp add: exProvider_def)
  show ?thesis
    unfolding collectTable_def n cursors
    by (simp add: collect_defs exProvider_def exMasks_def exStray_def)
qed

theorem collectData_seqCounts_witness:
  "\<exists>tbl. collectTable exStray exProvider exMasks = Inr tbl \<and>
     ncounts (tbl 3) = [2] \<and> nvalues (tbl 4) = [273, 274] \<and>
     ncounts (tbl 6) = [0] \<and> nvalues (tbl 7) = [] \<and>
     (\<exists>flds. collectData exStray exProvider [exTarget kelvin, gateTarget, emptyTarget] exMasks =
         Inr flds \<and> length flds = 3 \<and>
       fieldTarget (flds ! 0) = exTarget kelvin \<and>
       length (seqCounts (flds ! 0)) = 2 \<and>
       seqCounts (flds ! 0) ! 0 = [1] \<and> seqCounts (flds ! 0) ! 1 = [2] \<and>
       fieldData (flds ! 0) = [273, 274] \<and>
       fieldTarget (flds ! 1) = gateTarget \<and>
       seqCounts (flds ! 1) ! 0 = [1] \<and> seqCounts (flds ! 1) ! 1 = [0] \<and>
       fieldData (flds ! 1) = [] \<and>
       fieldTarget (flds ! 2) = emptyTarget \<and>
       fieldData (flds ! 2) = [MissingValue] \<and> seqCounts (flds ! 2) = [[1]])"
proof -
  from exTable obtain tbl where t: "collectTable exStray exProvider exMasks = Inr tbl"
    and v: "ncounts (tbl 3) = [2]" "nvalues (tbl 4) = [273, 274]"
      "ncounts (tbl 6) = [0]" "nvalues (tbl 7) = []"
    by blast
  let ?targets = "[exTarget kelvin, gateTarget, emptyTarget]"
  obtain flds where f: "collectData exStray exProvider ?targets exMasks = Inr flds"
    using t
    by (simp add: collectData_def fieldOf_def inTable_def exProvider_def exTarget_def
        gateTarget_def emptyTarget_def)
  note c = collectData_seqCounts [OF t f]
  have len: "length flds = 3" using c by simp
  have c0: "fieldTarget (flds ! 0) = exTarget kelvin \<and>
       length (seqCounts (flds ! 0)) = 2 \<and>
       seqCounts (flds ! 0) ! 0 = [1] \<and> seqCounts (flds ! 0) ! 1 = [2] \<and>
       fieldData (flds ! 0) = [273, 274]"
    using c [THEN conjunct2, rule_format, of 0] v by (simp add: exTarget_def)
  have c1: "fieldTarget (flds ! 1) = gateTarget \<and>
       seqCounts (flds ! 1) ! 0 = [1] \<and> seqCounts (flds ! 1) ! 1 = [0] \<and>
       fieldData (flds ! 1) = []"
    using c [THEN conjunct2, rule_format, of 1] v by (simp add: gateTarget_def)
  have c2: "fieldTarget (flds ! 2) = emptyTarget \<and>
       fieldData (flds ! 2) = [MissingValue] \<and> seqCounts (flds ! 2) = [[1]]"
    using c [THEN conjunct2, rule_format, of 2] by (simp add: emptyTarget_def)
  show ?thesis
    using t v f len c0 c1 c2 by blast
qed


subsection \<open>The endpoints of a query\<close>

lemma nodes: "[1..6] = [1, 2, 3, 4, 5, 6 :: int]"
  by code_simp

lemmas scan_defs = scanNodes_def visitNode_def stepBack_def jumpBackNodeOf_def
  getDimInfo_def stripTag_def isQueryNode_def initialComponents_def Let_def
  QueryComponent.truncate_def

lemma dupScan_eval: "scanNodes dupProvider (tempQuery i) = Some (Inr (dupScan i))"
  by (simp add: scan_defs nodes jumpBack.simps dupProvider_def tempQuery_def dupScan_def)

lemma visitNode_inv:
  assumes "visitNode dp q n st = Inr st'"
    and "-1 \<le> mnemonicCursor st"
    and "targetNodes st \<noteq> [] \<longrightarrow> qpath q \<noteq> []"
  shows "-1 \<le> mnemonicCursor st' \<and> (targetNodes st' \<noteq> [] \<longrightarrow> qpath q \<noteq> [])"
  using assms
  by (auto simp: visitNode_def Let_def split: if_splits sum.splits prod.splits)

lemma rewind_inv:
  "-1 \<le> mnemonicCursor st \<Longrightarrow>
   -1 \<le> mnemonicCursor (rewind dp k st) \<and> targetNodes (rewind dp k st) = targetNodes st"
  by (induction k arbitrary: st) (auto simp: Let_def)

lemma stepBack_inv:
  assumes "stepBack dp n st = Some st'" and "-1 \<le> mnemonicCursor st"
  shows "-1 \<le> mnemonicCursor st' \<and> targetNodes st' = targetNodes st"
  using assms rewind_inv [OF assms(2)]
  by (auto simp: stepBack_def split: if_splits option.splits)

lemma scanLoop_inv:
  "scanLoop dp q ns st = Some (Inr st') \<Longrightarrow> -1 \<le> mnemonicCursor st \<Longrightarrow>
   (targetNodes st \<noteq> [] \<longrightarrow> qpath q \<noteq> []) \<Longrightarrow>
   targetNodes st' \<noteq> [] \<longrightarrow> qpath q \<noteq> []"
proof (induction ns arbitrary: st)
  case Nil
  then show ?case by simp
next
  case (Cons n ns)
  from Cons.prems(1) obtain st1 st2 where v: "visitNode dp q n st = Inr st1"
    and b: "stepBack dp n st1 = Some st2" and r: "scanLoop dp q ns st2 = Some (Inr st')"
    by (auto split: sum.splits option.splits)
  note i1 = visitNode_inv [OF v Cons.prems(2,3)]
  note i2 = stepBack_inv [OF b i1 [THEN conjunct1]]
  show ?case
    using Cons.IH [OF r] i1 i2 by simp
qed

lemma scanNodes_path:
  "scanNodes dp q = Some (Inr st) \<Longrightarrow> targetNodes st \<noteq> [] \<Longrightarrow> qpath q \<noteq> []"
  unfolding scanNodes_def by (drule scanLoop_inv) simp_all

text \<open>
  The scan returns: when the jump-back node of every sequence is a node from 0 up to the
  sequence itself, the \<^verbatim>\<open>while\<close> loop ends, and \<open>findTarget\<close> yields a target
  or an error.
\<close>

lemma jumpBack_nonneg:
  assumes wf: "\<And>n. getTyp dp n = Sequence \<Longrightarrow> 0 \<le> getJmpb dp n \<and> getJmpb dp n \<le> n"
  shows "0 \<le> j \<Longrightarrow> \<exists>r. jumpBack dp j = Some r"
proof (induction "nat j" arbitrary: j rule: less_induct)
  case less
  show ?case
  proof (cases "getTyp dp j = Sequence \<and> getJmpb dp j \<noteq> j")
    case True
    then have "0 \<le> getJmpb dp j" "getJmpb dp j < j"
      using wf [of j] by auto
    then have "\<exists>r. jumpBack dp (getJmpb dp j) = Some r"
      using less.hyps [of "getJmpb dp j"] by simp
    then show ?thesis
      by (subst jumpBack.simps) (auto simp: Let_def)
  next
    case False
    then show ?thesis
      by (subst jumpBack.simps) (auto simp: Let_def)
  qed
qed

lemma jumpBack_total:
  assumes wf: "\<And>n. getTyp dp n = Sequence \<Longrightarrow> 0 \<le> getJmpb dp n \<and> getJmpb dp n \<le> n"
  shows "\<exists>r. jumpBack dp j = Some r"
proof (cases "0 \<le> j")
  case True
  show ?thesis using jumpBack_nonneg [of dp j] wf True by blast
next
  case False
  show ?thesis
  proof (cases "getTyp dp j = Sequence \<and> getJmpb dp j \<noteq> j")
    case True
    then have "0 \<le> getJmpb dp j" using wf [of j] by auto
    then have "\<exists>r. jumpBack dp (getJmpb dp j) = Some r"
      using jumpBack_nonneg [of dp "getJmpb dp j"] wf by blast
    then show ?thesis
      by (subst jumpBack.simps) (auto simp: Let_def)
  next
    case False
    then show ?thesis
      by (subst jumpBack.simps) (auto simp: Let_def)
  qed
qed

lemma stepBack_total:
  assumes wf: "\<And>n. getTyp dp n = Sequence \<Longrightarrow> 0 \<le> getJmpb dp n \<and> getJmpb dp n \<le> n"
  shows "\<exists>st'. stepBack dp n st = Some st'"
  using jumpBack_total [OF wf]
  by (auto simp: stepBack_def jumpBackNodeOf_def split: option.splits)
     (metis option.distinct(1))+

lemma scanLoop_total:
  assumes wf: "\<And>n. getTyp dp n = Sequence \<Longrightarrow> 0 \<le> getJmpb dp n \<and> getJmpb dp n \<le> n"
  shows "\<exists>r. scanLoop dp q ns st = Some r"
proof (induction ns arbitrary: st)
  case Nil
  then show ?case by simp
next
  case (Cons n ns)
  show ?case
  proof (cases "visitNode dp q n st")
    case (Inl e)
    then show ?thesis by simp
  next
    case (Inr st1)
    obtain st2 where "stepBack dp n st1 = Some st2"
      using stepBack_total [OF wf] by blast
    with Inr Cons.IH [of st2] show ?thesis by simp
  qed
qed

lemma findTarget_total:
  assumes wf: "\<And>n. getTyp dp n = Sequence \<Longrightarrow> 0 \<le> getJmpb dp n \<and> getJmpb dp n \<le> n"
  shows "\<exists>r. findTarget newTarget newInfo dp targetName q = Some r"
proof -
  obtain r where r: "scanNodes dp q = Some r"
    using scanLoop_total [OF wf] unfolding scanNodes_def by blast
  show ?thesis
    by (cases r) (simp_all add: findTarget_def r)
qed

text \<open>
  C5. For a query that applies to the subset, when the scan of the nodes ends with
  more than one endpoint node and the last path component has the index 0,
  \<open>findTarget\<close> fails with the error whose message holds the query string.
\<close>

theorem findTarget_ambiguous:
  assumes "isAnySubset (subset q) \<or> name (subset q) = getSubset dp"
    and "scanNodes dp q = Some (Inr st)"
    and "1 < length (targetNodes st)"
    and "index (last (qpath q)) = 0"
  shows "findTarget newTarget newInfo dp targetName q = Some (Inl (ambiguousQuery (queryStr q)))"
proof -
  have "targetNodes st \<noteq> []" using assms(3) by auto
  then have "qpath q \<noteq> []" using scanNodes_path [OF assms(2)] by simp
  then show ?thesis
    using assms by (simp add: findTarget_def finishTarget_def narrowTargets_def)
qed

theorem findTarget_ambiguous_witness:
  "isAnySubset (subset (tempQuery 0)) \<and>
   scanNodes dupProvider (tempQuery 0) = Some (Inr (dupScan 0)) \<and>
   targetNodes (dupScan 0) = [4, 5] \<and>
   index (last (qpath (tempQuery 0))) = 0 \<and>
   findTarget emptyTarget exInfo dupProvider ''temp'' (tempQuery 0) =
     Some (Inl (BadParameter
       ''Query string must return 1 target. Are you missing an index? */OBS/TEMP.''))"
proof -
  have h: "isAnySubset (subset (tempQuery 0)) \<or> name (subset (tempQuery 0)) = getSubset dupProvider"
    "1 < length (targetNodes (dupScan 0))" "index (last (qpath (tempQuery 0))) = 0"
    by (simp_all add: tempQuery_def dupScan_def)
  show ?thesis
    using findTarget_ambiguous [OF h(1) dupScan_eval h(2,3), of emptyTarget exInfo "''temp''"]
      dupScan_eval [of 0]
    by (simp add: tempQuery_def dupScan_def ambiguousQuery_def)
qed

text \<open>
  C8. For a query that applies to the subset, with a last path component: when its index
  exceeds the number of endpoint nodes the scan found, all of them are kept, and
  \<open>findTarget\<close> goes on as without an index (the ambiguity error for more than one
  node, the target otherwise); when the index is between 1 and that number, the nodes
  are narrowed to the one at the index, counted from 1, and \<open>findTarget\<close> returns its
  target; and the nodes are narrowed in that case only.
\<close>

theorem findTarget_index:
  assumes "isAnySubset (subset q) \<or> name (subset q) = getSubset dp"
    and "scanNodes dp q = Some (Inr st)"
    and "qpath q \<noteq> []"
  shows "(length (targetNodes st) < index (last (qpath q)) \<longrightarrow>
            narrowTargets q (targetNodes st) = targetNodes st \<and>
            findTarget newTarget newInfo dp targetName q =
              Some (if 1 < length (targetNodes st) then Inl (ambiguousQuery (queryStr q))
                    else Inr (makeTarget newTarget newInfo dp targetName q st (targetNodes st)))) \<and>
         (0 < index (last (qpath q)) \<and> index (last (qpath q)) \<le> length (targetNodes st) \<longrightarrow>
            narrowTargets q (targetNodes st) = [targetNodes st ! (index (last (qpath q)) - 1)] \<and>
            findTarget newTarget newInfo dp targetName q =
              Some (Inr (makeTarget newTarget newInfo dp targetName q st
                      [targetNodes st ! (index (last (qpath q)) - 1)]))) \<and>
         (narrowTargets q (targetNodes st) \<noteq> targetNodes st \<longrightarrow>
            0 < index (last (qpath q)) \<and> index (last (qpath q)) \<le> length (targetNodes st))"
  using assms
  by (auto simp: findTarget_def finishTarget_def narrowTargets_def)

theorem findTarget_index_witness:
  "isAnySubset (subset (tempQuery 3)) \<and>
   scanNodes dupProvider (tempQuery 3) = Some (Inr (dupScan 3)) \<and>
   qpath (tempQuery 3) \<noteq> [] \<and>
   length (targetNodes (dupScan 3)) < index (last (qpath (tempQuery 3))) \<and>
   narrowTargets (tempQuery 3) (targetNodes (dupScan 3)) = [4, 5] \<and>
   findTarget emptyTarget exInfo dupProvider ''temp'' (tempQuery 3) =
     Some (Inl (ambiguousQuery ''*/OBS/TEMP'')) \<and>
   scanNodes dupProvider (tempQuery 2) = Some (Inr (dupScan 2)) \<and>
   0 < index (last (qpath (tempQuery 2))) \<and>
   index (last (qpath (tempQuery 2))) \<le> length (targetNodes (dupScan 2)) \<and>
   narrowTargets (tempQuery 2) (targetNodes (dupScan 2)) = [5] \<and>
   findTarget emptyTarget exInfo dupProvider ''temp'' (tempQuery 2) =
     Some (Inr (makeTarget emptyTarget exInfo dupProvider ''temp'' (tempQuery 2) (dupScan 2) [5])) \<and>
   nodeIdx (makeTarget emptyTarget exInfo dupProvider ''temp'' (tempQuery 2) (dupScan 2) [5]) = 5"
proof -
  have h: "isAnySubset (subset (tempQuery i)) \<or> name (subset (tempQuery i)) = getSubset dupProvider"
    "qpath (tempQuery i) \<noteq> []" for i
    by (simp_all add: tempQuery_def)
  have a: "length (targetNodes (dupScan 3)) < index (last (qpath (tempQuery 3)))"
    "0 < index (last (qpath (tempQuery 2)))"
    "index (last (qpath (tempQuery 2))) \<le> length (targetNodes (dupScan 2))"
    "targetNodes (dupScan 3) = [4, 5]" "targetNodes (dupScan 2) ! (index (last (qpath (tempQuery 2))) - 1) = 5"
    "queryStr (tempQuery 3) = ''*/OBS/TEMP''" "isAnySubset (subset (tempQuery 3))"
    by (simp_all add: tempQuery_def dupScan_def)
  have n: "nodeIdx (makeTarget emptyTarget exInfo dupProvider ''temp'' (tempQuery 2) (dupScan 2) [5]) = 5"
    by (simp add: makeTarget_def Let_def)
  show ?thesis
    using findTarget_index [OF h(1) dupScan_eval h(2), of 3 emptyTarget exInfo "''temp''"]
      findTarget_index [OF h(1) dupScan_eval h(2), of 2 emptyTarget exInfo "''temp''"]
      dupScan_eval [of 3] dupScan_eval [of 2] h a n
    by simp
qed


end
